theory Spec2Isabelle
  imports Complex_Main "HOL-Library.Finite_Map"
begin

section \<open>Type descriptors\<close>

text \<open>
  The static shape of a value (\<^verbatim>\<open>tftypes.Type\<close> of the plugin library): one of
  Bool, Number, String, List of an element type, Object of an ordered mapping from
  field names to types.
\<close>

datatype TypeDescriptor =
    Bool
  | Number
  | String
  | List TypeDescriptor
  | Object "(string \<times> TypeDescriptor) list"

text \<open>
  \<^verbatim>\<open>typ.Is(tftypes.List{})\<close>: the argument is a list type with no element type, so the
  test only asks whether \<^verbatim>\<open>typ\<close> is a list type.
\<close>

fun Is_List :: "TypeDescriptor \<Rightarrow> bool" where
  "Is_List (List _) = True"
| "Is_List _ = False"

section \<open>Panics and errors\<close>

text \<open>
  A Go panic carries a value: a string (\<^verbatim>\<open>panic("...")\<close>), an error
  (\<^verbatim>\<open>panic(err)\<close>), or the message of a failed \<^verbatim>\<open>contract.Assertf\<close>. A Go error is
  modelled by its message. A function that can panic returns \<open>panic + 'a\<close>, with
  \<open>Inl\<close> for the panic.
\<close>

type_synonym go_error = string

datatype panic = PanicString string | PanicError go_error | AssertionFailed string

section \<open>Naming rule (naming.go)\<close>

text \<open>
  \<^verbatim>\<open>inflector.Pluralize\<close> and \<^verbatim>\<open>inflector.Singularize\<close> belong to a library outside the
  repository. The naming rule is parameterised by them: any two functions on strings.
\<close>

record inflector =
  Pluralize :: "string \<Rightarrow> string"
  Singularize :: "string \<Rightarrow> string"

text \<open>
  \<^verbatim>\<open>
  func willPluralize(name string, typ tftypes.Type) bool {
      if typ.Is(tftypes.List{}) {
          plu := inflector.Pluralize(name)
          distinct := plu != name
          valid := inflector.Singularize(plu) == name
          return valid && distinct
      }
      return false
  }
  \<close>
\<close>

definition willPluralize :: "inflector \<Rightarrow> string \<Rightarrow> TypeDescriptor \<Rightarrow> bool" where
  "willPluralize I name typ =
     (if Is_List typ then
        (let plu = Pluralize I name;
             distinct = (plu \<noteq> name);
             valid = (Singularize I plu = name)
         in valid \<and> distinct)
      else False)"

text \<open>
  \<^verbatim>\<open>
  func toPropertyKey(name string, typ tftypes.Type) resource.PropertyKey {
      if willPluralize(name, typ) {
          return resource.PropertyKey(inflector.Pluralize(name))
      }
      return resource.PropertyKey(name)
  }
  \<close>
  A \<^verbatim>\<open>resource.PropertyKey\<close> is a string.
\<close>

type_synonym PropertyKey = string

definition toPropertyKey :: "inflector \<Rightarrow> string \<Rightarrow> TypeDescriptor \<Rightarrow> PropertyKey" where
  "toPropertyKey I name typ =
     (if willPluralize I name typ then Pluralize I name else name)"

text \<open>
  A small inflector to run the rule on, built the way inflectors are: a table of
  irregular nouns (here one pair, man and men) consulted first, then the regular rule,
  which leaves a word that ends in s alone when pluralizing and strips a final s when
  singularizing.
\<close>

definition pluralize_word :: "string \<Rightarrow> string" where
  "pluralize_word w =
     (if w = ''man'' then ''men''
      else if w \<noteq> [] \<and> last w = CHR ''s'' then w
      else w @ ''s'')"

definition singularize_word :: "string \<Rightarrow> string" where
  "singularize_word w =
     (if w = ''men'' then ''man''
      else if w \<noteq> [] \<and> last w = CHR ''s'' then butlast w
      else w)"

definition small_inflector :: inflector where
  "small_inflector = \<lparr> Pluralize = pluralize_word, Singularize = singularize_word \<rparr>"

section \<open>Schema-only provider adapter\<close>

text \<open>
  The plugin framework's diagnostics (a library outside the repository):
  \<^verbatim>\<open>Diagnostics.HasError()\<close> holds when some diagnostic has error severity.
\<close>

datatype Severity = SeverityInvalid | SeverityError | SeverityWarning

record Diagnostic =
  Severity :: Severity
  Summary :: string
  Detail :: string

definition HasError :: "Diagnostic list \<Rightarrow> bool" where
  "HasError diags = list_ex (\<lambda>d. Severity d = SeverityError) diags"

text \<open>
  \<^verbatim>\<open>pfprovider.SchemaRequest\<close> has no fields; \<^verbatim>\<open>pfprovider.SchemaResponse\<close> holds the
  schema and the diagnostics. The wrapped plugin's \<^verbatim>\<open>Schema\<close> method fills in the response
  it is handed, so it is a function from the response before to the response after.
\<close>

datatype SchemaRequest = SchemaRequest

record 'sch SchemaResponse =
  Schema :: 'sch
  Diagnostics :: "Diagnostic list"

record ('ctx, 'sch) pfProvider =
  pfSchema :: "'ctx \<Rightarrow> SchemaRequest \<Rightarrow> 'sch SchemaResponse \<Rightarrow> 'sch SchemaResponse"

text \<open>
  \<^verbatim>\<open>
  type SchemaOnlyProvider struct {
      ctx context.Context
      tf  pfprovider.Provider
  }
  \<close>
\<close>

record ('ctx, 'sch) SchemaOnlyProvider =
  ctx :: 'ctx
  tf :: "('ctx, 'sch) pfProvider"

text \<open>
  What the adapter uses from other packages: the zero value of the response's schema
  field, \<^verbatim>\<open>context.TODO()\<close>, \<^verbatim>\<open>pfutils.FromProviderSchema\<close>,
  \<^verbatim>\<open>newSchemaMap\<close>, \<^verbatim>\<open>pfutils.GatherResources\<close> and \<^verbatim>\<open>pfutils.GatherDatasources\<close>. They
  are parameters; the two gathering functions return an error or the gathered schemas.
\<close>

record ('ctx, 'sch, 'ps, 'sm, 'rs, 'ds) pfutils =
  zeroSchema :: 'sch
  context_TODO :: 'ctx
  FromProviderSchema :: "'sch \<Rightarrow> 'ps"
  newSchemaMap :: "'ps \<Rightarrow> 'sm"
  GatherResources :: "'ctx \<Rightarrow> ('ctx, 'sch) pfProvider \<Rightarrow> go_error + 'rs"
  GatherDatasources :: "'ctx \<Rightarrow> ('ctx, 'sch) pfProvider \<Rightarrow> go_error + 'ds"

text \<open>
  The two resource maps the adapter returns wrap what was gathered:
  \<^verbatim>\<open>&schemaOnlyResourceMap{resources}\<close> and \<^verbatim>\<open>&schemaOnlyDataSourceMap{dataSources}\<close>.
\<close>

datatype ('rs, 'ds) ResourceMap =
    schemaOnlyResourceMap 'rs
  | schemaOnlyDataSourceMap 'ds

text \<open>
  Each schema-reading method also returns the requests it issued to the wrapped plugin,
  in order, so that a retry would show as a second entry.
\<close>

datatype 'ctx plugin_request =
    SchemaCall 'ctx SchemaRequest
  | GatherResourcesCall 'ctx
  | GatherDatasourcesCall 'ctx

text \<open>
  \<^verbatim>\<open>
  func (p *SchemaOnlyProvider) Schema() shim.SchemaMap {
      ctx := p.ctx
      schemaResp := &pfprovider.SchemaResponse{}
      p.tf.Schema(ctx, pfprovider.SchemaRequest{}, schemaResp)
      if schemaResp.Diagnostics.HasError() {
          panic("Schema() returned error diags")
      }
      return newSchemaMap(pfutils.FromProviderSchema(schemaResp.Schema))
  }
  \<close>
\<close>

definition schemaResponse ::
  "('ctx, 'sch, 'ps, 'sm, 'rs, 'ds) pfutils \<Rightarrow> ('ctx, 'sch) SchemaOnlyProvider
     \<Rightarrow> 'sch SchemaResponse" where
  "schemaResponse U p =
     pfSchema (tf p) (ctx p) SchemaRequest \<lparr> Schema = zeroSchema U, Diagnostics = [] \<rparr>"

definition SchemaOnly_Schema ::
  "('ctx, 'sch, 'ps, 'sm, 'rs, 'ds) pfutils \<Rightarrow> ('ctx, 'sch) SchemaOnlyProvider
     \<Rightarrow> (panic + 'sm) \<times> 'ctx plugin_request list" where
  "SchemaOnly_Schema U p =
     (let schemaResp = schemaResponse U p;
          issued = [SchemaCall (ctx p) SchemaRequest]
      in if HasError (Diagnostics schemaResp)
         then (Inl (PanicString ''Schema() returned error diags''), issued)
         else (Inr (newSchemaMap U (FromProviderSchema U (Schema schemaResp))), issued))"

text \<open>
  \<^verbatim>\<open>
  func (p *SchemaOnlyProvider) ResourcesMap() shim.ResourceMap {
      resources, err := pfutils.GatherResources(context.TODO(), p.tf)
      if err != nil {
          panic(err)
      }
      return &schemaOnlyResourceMap{resources}
  }
  \<close>
  and likewise \<^verbatim>\<open>DataSourcesMap\<close> with \<^verbatim>\<open>pfutils.GatherDatasources\<close>.
\<close>

definition ResourcesMap ::
  "('ctx, 'sch, 'ps, 'sm, 'rs, 'ds) pfutils \<Rightarrow> ('ctx, 'sch) SchemaOnlyProvider
     \<Rightarrow> (panic + ('rs, 'ds) ResourceMap) \<times> 'ctx plugin_request list" where
  "ResourcesMap U p =
     (case GatherResources U (context_TODO U) (tf p) of
        Inl err \<Rightarrow> (Inl (PanicError err), [GatherResourcesCall (context_TODO U)])
      | Inr resources \<Rightarrow>
          (Inr (schemaOnlyResourceMap resources), [GatherResourcesCall (context_TODO U)]))"

definition DataSourcesMap ::
  "('ctx, 'sch, 'ps, 'sm, 'rs, 'ds) pfutils \<Rightarrow> ('ctx, 'sch) SchemaOnlyProvider
     \<Rightarrow> (panic + ('rs, 'ds) ResourceMap) \<times> 'ctx plugin_request list" where
  "DataSourcesMap U p =
     (case GatherDatasources U (context_TODO U) (tf p) of
        Inl err \<Rightarrow> (Inl (PanicError err), [GatherDatasourcesCall (context_TODO U)])
      | Inr dataSources \<Rightarrow>
          (Inr (schemaOnlyDataSourceMap dataSources),
           [GatherDatasourcesCall (context_TODO U)]))"

subsection \<open>Runtime operations\<close>

text \<open>
  Every runtime method of the adapter is a single \<^verbatim>\<open>panic("...")\<close>. The argument and
  result types come from the shim package and stay type parameters. The message of
  each method is the string literal of its body.
\<close>

definition Validate ::
  "('ctx, 'sch) SchemaOnlyProvider \<Rightarrow> 'ctx \<Rightarrow> 'rc \<Rightarrow> panic + (string list \<times> go_error list)" where
  "Validate p c rc =
     Inl (PanicString ''schemaOnlyProvider does not implement runtime operation Validate'')"

definition ValidateResource ::
  "('ctx, 'sch) SchemaOnlyProvider \<Rightarrow> 'ctx \<Rightarrow> string \<Rightarrow> 'rc
     \<Rightarrow> panic + (string list \<times> go_error list)" where
  "ValidateResource p c t rc =
     Inl (PanicString
       ''schemaOnlyProvider does not implement runtime operation ValidateResource'')"

definition ValidateDataSource ::
  "('ctx, 'sch) SchemaOnlyProvider \<Rightarrow> 'ctx \<Rightarrow> string \<Rightarrow> 'rc
     \<Rightarrow> panic + (string list \<times> go_error list)" where
  "ValidateDataSource p c t rc =
     Inl (PanicString
       ''schemaOnlyProvider does not implement runtime operation ValidateDataSource'')"

definition Configure ::
  "('ctx, 'sch) SchemaOnlyProvider \<Rightarrow> 'ctx \<Rightarrow> 'rc \<Rightarrow> panic + go_error option" where
  "Configure p c rc =
     Inl (PanicString ''schemaOnlyProvider does not implement runtime operation Configure'')"

definition Diff ::
  "('ctx, 'sch) SchemaOnlyProvider \<Rightarrow> 'ctx \<Rightarrow> string \<Rightarrow> 'st \<Rightarrow> 'rc \<Rightarrow> 'dopts
     \<Rightarrow> panic + ('idiff \<times> go_error option)" where
  "Diff p c t s rc opts =
     Inl (PanicString ''schemaOnlyProvider does not implement runtime operation Diff'')"

definition Apply ::
  "('ctx, 'sch) SchemaOnlyProvider \<Rightarrow> 'ctx \<Rightarrow> string \<Rightarrow> 'st \<Rightarrow> 'idiff
     \<Rightarrow> panic + ('st \<times> go_error option)" where
  "Apply p c t s d =
     Inl (PanicString ''schemaOnlyProvider does not implement runtime operation Apply'')"

definition Refresh ::
  "('ctx, 'sch) SchemaOnlyProvider \<Rightarrow> 'ctx \<Rightarrow> string \<Rightarrow> 'st \<Rightarrow> 'rc
     \<Rightarrow> panic + ('st \<times> go_error option)" where
  "Refresh p c t s rc =
     Inl (PanicString ''schemaOnlyProvider does not implement runtime operation Refresh'')"

definition ReadDataDiff ::
  "('ctx, 'sch) SchemaOnlyProvider \<Rightarrow> 'ctx \<Rightarrow> string \<Rightarrow> 'rc
     \<Rightarrow> panic + ('idiff \<times> go_error option)" where
  "ReadDataDiff p c t rc =
     Inl (PanicString
       ''schemaOnlyProvider does not implement runtime operation ReadDataDiff'')"

definition ReadDataApply ::
  "('ctx, 'sch) SchemaOnlyProvider \<Rightarrow> 'ctx \<Rightarrow> string \<Rightarrow> 'idiff
     \<Rightarrow> panic + ('st \<times> go_error option)" where
  "ReadDataApply p c t d =
     Inl (PanicString
       ''schemaOnlyProvider does not implement runtime operation ReadDataApply'')"

definition Meta :: "('ctx, 'sch) SchemaOnlyProvider \<Rightarrow> 'ctx \<Rightarrow> panic + 'meta" where
  "Meta p c =
     Inl (PanicString ''schemaOnlyProvider does not implement runtime operation Meta'')"

definition Stop :: "('ctx, 'sch) SchemaOnlyProvider \<Rightarrow> 'ctx \<Rightarrow> panic + go_error option" where
  "Stop p c =
     Inl (PanicString ''schemaOnlyProvider does not implement runtime operation Stop'')"

definition InitLogging :: "('ctx, 'sch) SchemaOnlyProvider \<Rightarrow> 'ctx \<Rightarrow> panic + unit" where
  "InitLogging p c =
     Inl (PanicString
       ''schemaOnlyProvider does not implement runtime operation InitLogging'')"

definition NewDestroyDiff ::
  "('ctx, 'sch) SchemaOnlyProvider \<Rightarrow> 'ctx \<Rightarrow> string \<Rightarrow> 'topts \<Rightarrow> panic + 'idiff" where
  "NewDestroyDiff p c t opts =
     Inl (PanicString
       ''schemaOnlyProvider does not implement runtime operation NewDestroyDiff'')"

definition NewResourceConfig ::
  "('ctx, 'sch) SchemaOnlyProvider \<Rightarrow> 'ctx \<Rightarrow> (string \<rightharpoonup> 'any) \<Rightarrow> panic + 'rc" where
  "NewResourceConfig p c m =
     Inl (PanicString
       ''schemaOnlyProvider does not implement runtime operation ResourceConfig'')"

definition IsSet ::
  "('ctx, 'sch) SchemaOnlyProvider \<Rightarrow> 'ctx \<Rightarrow> 'any \<Rightarrow> panic + ('any list \<times> bool)" where
  "IsSet p c v =
     Inl (PanicString ''schemaOnlyProvider does not implement runtime operation IsSet'')"

text \<open>The message that names a runtime operation, as the methods spell it.\<close>

definition not_implemented :: "string \<Rightarrow> panic" where
  "not_implemented operation =
     PanicString (''schemaOnlyProvider does not implement runtime operation '' @ operation)"

text \<open>
  A plugin to run the adapter on: its provider schema has one string property, and it
  declares one resource type with a single attribute, name, of type String. A second
  plugin reports an error diagnostic from its schema computation. The helper functions
  are the simplest possible: the schema conversions are identities, and gathering
  either succeeds with the declared schemas or fails.
\<close>

definition sample_plugin :: "(unit, (string \<times> TypeDescriptor) list) pfProvider" where
  "sample_plugin =
     \<lparr> pfSchema = (\<lambda>c r resp. resp \<lparr> Schema := [(''token'', String)] \<rparr>) \<rparr>"

definition broken_plugin :: "(unit, (string \<times> TypeDescriptor) list) pfProvider" where
  "broken_plugin =
     \<lparr> pfSchema = (\<lambda>c r resp. resp \<lparr> Diagnostics := Diagnostics resp @
          [\<lparr> Severity = SeverityWarning, Summary = ''deprecated'', Detail = '''' \<rparr>,
           \<lparr> Severity = SeverityError, Summary = ''bad schema'', Detail = '''' \<rparr>] \<rparr>) \<rparr>"

type_synonym sample_schemas = "(string \<times> (string \<times> TypeDescriptor) list) list"

definition sample_utils ::
  "(unit, (string \<times> TypeDescriptor) list, (string \<times> TypeDescriptor) list,
    (string \<times> TypeDescriptor) list, sample_schemas, sample_schemas) pfutils" where
  "sample_utils =
     \<lparr> zeroSchema = [], context_TODO = (),
       FromProviderSchema = (\<lambda>s. s), newSchemaMap = (\<lambda>s. s),
       GatherResources = (\<lambda>c t. Inr [(''thing'', [(''name'', String)])]),
       GatherDatasources = (\<lambda>c t. Inr []) \<rparr>"

definition failing_utils ::
  "(unit, (string \<times> TypeDescriptor) list, (string \<times> TypeDescriptor) list,
    (string \<times> TypeDescriptor) list, sample_schemas, sample_schemas) pfutils" where
  "failing_utils =
     sample_utils \<lparr> GatherResources := (\<lambda>c t. Inl ''resource schema failed''),
                    GatherDatasources := (\<lambda>c t. Inl ''data source schema failed'') \<rparr>"

section \<open>Property values\<close>

text \<open>
  The engine's value representation (\<^verbatim>\<open>resource.PropertyValue\<close> of the engine's SDK,
  outside the repository), with the shapes of the specification's data model: null,
  bool, number, string, array, object, and the wrappers computed, secret and output
  (element, known, secret, dependencies). A property number is a 64-bit float; its
  type stays the parameter \<open>'f\<close>. A \<^verbatim>\<open>resource.PropertyMap\<close> is a finite map from keys
  to values.
\<close>

datatype 'f PropertyValue =
    NullProperty
  | BoolProperty bool
  | NumberProperty 'f
  | StringProperty string
  | ArrayProperty "'f PropertyValue list"
  | ObjectProperty "(PropertyKey, 'f PropertyValue) fmap"
  | ComputedProperty "'f PropertyValue"
  | SecretProperty "'f PropertyValue"
  | OutputProperty "'f PropertyValue" bool bool "string list"

type_synonym 'f PropertyMap = "(PropertyKey, 'f PropertyValue) fmap"

fun IsComputed :: "'f PropertyValue \<Rightarrow> bool" where
  "IsComputed (ComputedProperty _) = True"
| "IsComputed _ = False"

fun IsOutput :: "'f PropertyValue \<Rightarrow> bool" where
  "IsOutput (OutputProperty _ _ _ _) = True"
| "IsOutput _ = False"

fun IsSecret :: "'f PropertyValue \<Rightarrow> bool" where
  "IsSecret (SecretProperty _) = True"
| "IsSecret _ = False"

fun IsString :: "'f PropertyValue \<Rightarrow> bool" where
  "IsString (StringProperty _) = True"
| "IsString _ = False"

section \<open>DelegateIDField\<close>

text \<open>
  \<^verbatim>\<open>
  type delegateIDFieldError struct {
      msg                   string
      providerName, repoURL string
  }

  func (err delegateIDFieldError) Error() string {
      return fmt.Sprintf("%s. This is an error in %s resource provider, please report at %s",
          err.msg, err.providerName, err.repoURL)
  }
  \<close>
\<close>

datatype delegateIDFieldError = delegateIDFieldError string string string

fun Error :: "delegateIDFieldError \<Rightarrow> string" where
  "Error (delegateIDFieldError msg providerName repoURL) =
     msg @ ''. This is an error in '' @ providerName
       @ '' resource provider, please report at '' @ repoURL"

text \<open>
  A context may carry a logger under \<^verbatim>\<open>logging.CtxKey\<close>. \<^verbatim>\<open>GetLogger\<close> asserts that it
  does; \<^verbatim>\<open>contract.Assertf\<close> panics when its condition is false. What a logger is
  stays a type parameter; what it prints is returned as a list of log entries.
  \<^verbatim>\<open>
  func GetLogger(ctx context.Context) Logger {
      logger := ctx.Value(logging.CtxKey)
      contract.Assertf(logger != nil,
          "Cannot call GetLogger on a context that is not equipped with a Logger")
      return newLoggerAdapter(logger)
  }
  \<close>
\<close>

record 'lg go_context =
  CtxLogger :: "'lg option"

datatype log_entry = Warn string

definition GetLogger :: "'lg go_context \<Rightarrow> panic + 'lg" where
  "GetLogger c =
     (case CtxLogger c of
        None \<Rightarrow> Inl (AssertionFailed
          ''Cannot call GetLogger on a context that is not equipped with a Logger'')
      | Some logger \<Rightarrow> Inr logger)"

text \<open>
  \<^verbatim>\<open>
  func DelegateIDField(field resource.PropertyKey, providerName, repoURL string) ComputeID {
      return func(ctx context.Context, state resource.PropertyMap) (resource.ID, error) {
          err := func(msg string, a ...any) error {
              return delegateIDFieldError{
                  msg: fmt.Sprintf(msg, a...), providerName: providerName, repoURL: repoURL}
          }
          fieldValue, ok := state[field]
          if !ok {
              return "", err("Could not find required property '%s' in state", field)
          }
          contract.Assertf(
              !fieldValue.IsComputed() && (!fieldValue.IsOutput() || fieldValue.OutputValue().Known),
              "ComputeID is only called during when preview=false, so we should never need to "+
                  "deal with computed properties")
          if fieldValue.IsSecret() || (fieldValue.IsOutput() && fieldValue.OutputValue().Secret) {
              msg := fmt.Sprintf("Setting non-secret resource ID as '%s' (which is secret)", field)
              GetLogger(ctx).Warn(msg)
              if fieldValue.IsSecret() {
                  fieldValue = fieldValue.SecretValue().Element
              } else {
                  fieldValue = fieldValue.OutputValue().Element
              }
          }
          if !fieldValue.IsString() {
              return "", err("Expected '%s' property to be a string, found %s",
                  field, fieldValue.TypeString())
          }
          return resource.ID(fieldValue.StringValue()), nil
      }
  }
  \<close>
  The result is a panic (a failed assertion), or the pair of the ID and the optional error; the
  second component of the model's result is what was logged. \<^verbatim>\<open>TypeString\<close> is a method
  of the SDK and a parameter here.
\<close>

type_synonym ID = string

definition quoted :: "string \<Rightarrow> string" where
  "quoted s = [CHR 0x27] @ s @ [CHR 0x27]"

definition assertComputeID :: "'f PropertyValue \<Rightarrow> bool" where
  "assertComputeID fieldValue =
     (\<not> IsComputed fieldValue \<and>
      (\<not> IsOutput fieldValue \<or>
       (case fieldValue of OutputProperty _ known _ _ \<Rightarrow> known | _ \<Rightarrow> False)))"

definition markedSecret :: "'f PropertyValue \<Rightarrow> bool" where
  "markedSecret fieldValue =
     (IsSecret fieldValue \<or>
      (IsOutput fieldValue \<and>
       (case fieldValue of OutputProperty _ _ secret _ \<Rightarrow> secret | _ \<Rightarrow> False)))"

fun unwrapped :: "'f PropertyValue \<Rightarrow> 'f PropertyValue" where
  "unwrapped (SecretProperty element) = element"
| "unwrapped (OutputProperty element _ _ _) = element"
| "unwrapped v = v"

definition returnID ::
  "('f PropertyValue \<Rightarrow> string) \<Rightarrow> PropertyKey \<Rightarrow> string \<Rightarrow> string \<Rightarrow> 'f PropertyValue
     \<Rightarrow> ID \<times> delegateIDFieldError option" where
  "returnID TypeString field providerName repoURL fieldValue =
     (case fieldValue of
        StringProperty s \<Rightarrow> (s, None)
      | _ \<Rightarrow> ('''', Some (delegateIDFieldError
                 (''Expected '' @ quoted field @ '' property to be a string, found ''
                    @ TypeString fieldValue)
                 providerName repoURL)))"

definition DelegateIDField ::
  "('f PropertyValue \<Rightarrow> string) \<Rightarrow> PropertyKey \<Rightarrow> string \<Rightarrow> string
     \<Rightarrow> 'lg go_context \<Rightarrow> 'f PropertyMap
     \<Rightarrow> (panic + ID \<times> delegateIDFieldError option) \<times> log_entry list" where
  "DelegateIDField TypeString field providerName repoURL c state =
     (case fmlookup state field of
        None \<Rightarrow>
          (Inr ('''', Some (delegateIDFieldError
             (''Could not find required property '' @ quoted field @ '' in state'')
             providerName repoURL)), [])
      | Some fieldValue \<Rightarrow>
          if \<not> assertComputeID fieldValue then
            (Inl (AssertionFailed
               (''ComputeID is only called during when preview=false, so we should never need to ''
                @ ''deal with computed properties'')), [])
          else if markedSecret fieldValue then
            (case GetLogger c of
               Inl failed \<Rightarrow> (Inl failed, [])
             | Inr logger \<Rightarrow>
                 (Inr (returnID TypeString field providerName repoURL (unwrapped fieldValue)),
                  [Warn (''Setting non-secret resource ID as '' @ quoted field
                         @ '' (which is secret)'')]))
          else (Inr (returnID TypeString field providerName repoURL fieldValue), []))"

section \<open>Marshallable schemas\<close>

text \<open>
  A shim schema (\<^verbatim>\<open>shim.Schema\<close>) answers the methods \<^verbatim>\<open>Type\<close>, \<^verbatim>\<open>Optional\<close>, \<^verbatim>\<open>Required\<close>,
  \<^verbatim>\<open>Computed\<close>, \<^verbatim>\<open>ForceNew\<close>, \<^verbatim>\<open>Elem\<close>, \<^verbatim>\<open>MaxItems\<close>, \<^verbatim>\<open>MinItems\<close> and \<^verbatim>\<open>Deprecated\<close>, which
  marshalling reads, and more that it does not read; the rest of a schema is a value of
  the type parameter \<open>'x\<close>. Its element is an \<^verbatim>\<open>interface{}\<close>: nil, a schema, a resource,
  or a value of another type. A shim resource (\<^verbatim>\<open>shim.Resource\<close>) has a schema map, which
  may be nil, and a rest of type \<open>'y\<close>. \<^verbatim>\<open>shim.ValueType\<close> is an integer enumeration; the
  item counts are Go integers, which marshalling copies and never computes with.
\<close>

type_synonym ValueType = int

datatype ('x, 'y) shimSchema =
  ShimSchema (Type: ValueType) (Optional: bool) (Required: bool) (Computed: bool)
    (ForceNew: bool) (Elem: "('x, 'y) shimElem") (MaxItems: int) (MinItems: int)
    (Deprecated: string) (SchemaRest: 'x)
and ('x, 'y) shimElem =
    ElemNil
  | ElemSchema "('x, 'y) shimSchema"
  | ElemResource "('x, 'y) shimResource"
  | ElemOther
and ('x, 'y) shimResource =
  ShimResource (ResourceSchema: "(string, ('x, 'y) shimSchema) fmap option") (ResourceRest: 'y)

text \<open>
  \<^verbatim>\<open>
  type MarshallableSchema struct {
      Type               shim.ValueType    `json:"type"`
      Optional           bool              `json:"optional,omitempty"`
      Required           bool              `json:"required,omitempty"`
      Computed           bool              `json:"computed,omitempty"`
      ForceNew           bool              `json:"forceNew,omitempty"`
      Elem               *MarshallableElem `json:"element,omitempty"`
      MaxItems           int               `json:"maxItems,omitempty"`
      MinItems           int               `json:"minItems,omitempty"`
      DeprecationMessage string            `json:"deprecated,omitempty"`
  }
  type MarshallableResource map[string]*MarshallableSchema
  type MarshallableElem struct {
      Schema   *MarshallableSchema  `json:"schema,omitempty"`
      Resource MarshallableResource `json:"resource,omitempty"`
  }
  \<close>
  The fields carry the source's names with a prime, the unprimed names being the
  methods of the shim schema. A nil pointer and a nil map are \<open>None\<close>. The entries of a
  \<^verbatim>\<open>MarshallableResource\<close> are the pointers \<^verbatim>\<open>MarshalSchema\<close> returns, which are never nil.
\<close>

datatype MarshallableSchema =
  MarshallableSchema (Type': ValueType) (Optional': bool) (Required': bool) (Computed': bool)
    (ForceNew': bool) (Elem': "MarshallableElem option") (MaxItems': int) (MinItems': int)
    (DeprecationMessage': string)
and MarshallableElem =
  MarshallableElem (Schema': "MarshallableSchema option")
    (Resource': "(string, MarshallableSchema) fmap option")

type_synonym MarshallableResource = "(string, MarshallableSchema) fmap option"

text \<open>
  \<^verbatim>\<open>
  func MarshalSchema(s shim.Schema) *MarshallableSchema {
      return &MarshallableSchema{
          Type: s.Type(), Optional: s.Optional(), Required: s.Required(),
          Computed: s.Computed(), ForceNew: s.ForceNew(), Elem: MarshalElem(s.Elem()),
          MaxItems: s.MaxItems(), MinItems: s.MinItems(), DeprecationMessage: s.Deprecated(),
      }
  }

  func MarshalResource(r shim.Resource) MarshallableResource {
      m := make(MarshallableResource)
      if r.Schema() == nil {
          return m
      }
      r.Schema().Range(func(k string, v shim.Schema) bool {
          m[k] = MarshalSchema(v)
          return true
      })
      return m
  }

  func MarshalElem(e interface{}) *MarshallableElem {
      switch v := e.(type) {
      case shim.Schema:
          return &MarshallableElem{Schema: MarshalSchema(v)}
      case shim.Resource:
          return &MarshallableElem{Resource: MarshalResource(v)}
      default:
          contract.Assertf(e == nil, "unexpected schema element of type %T", e)
          return nil
      }
  }
  \<close>
  The assertion of the default case fails on an element of another type; the message of
  the model leaves the formatted type name out. Marshalling the entries of a schema map
  panics if marshalling one of them does.
\<close>

definition unexpected_element :: panic where
  "unexpected_element = AssertionFailed ''unexpected schema element''"

definition marshalled_entries ::
  "(string, panic + MarshallableSchema) fmap \<Rightarrow> panic + (string, MarshallableSchema) fmap" where
  "marshalled_entries rs =
     (if fmpred (\<lambda>k r. \<not> isl r) rs then Inr (fmmap projr rs) else Inl unexpected_element)"

primrec MarshalSchema :: "('x, 'y) shimSchema \<Rightarrow> panic + MarshallableSchema"
  and MarshalElem :: "('x, 'y) shimElem \<Rightarrow> panic + MarshallableElem option"
  and MarshalResource :: "('x, 'y) shimResource \<Rightarrow> panic + (string, MarshallableSchema) fmap"
where
  "MarshalSchema (ShimSchema t opt req com fnew e mx mn dep x) =
     (case MarshalElem e of
        Inl p \<Rightarrow> Inl p
      | Inr me \<Rightarrow> Inr (MarshallableSchema t opt req com fnew me mx mn dep))"
| "MarshalElem ElemNil = Inr None"
| "MarshalElem (ElemSchema v) =
     (case MarshalSchema v of
        Inl p \<Rightarrow> Inl p
      | Inr s \<Rightarrow> Inr (Some (MarshallableElem (Some s) None)))"
| "MarshalElem (ElemResource v) =
     (case MarshalResource v of
        Inl p \<Rightarrow> Inl p
      | Inr r \<Rightarrow> Inr (Some (MarshallableElem None (Some r))))"
| "MarshalElem ElemOther = Inl unexpected_element"
| "MarshalResource (ShimResource schema y) =
     (case map_option (fmmap MarshalSchema) schema of
        None \<Rightarrow> Inr fmempty
      | Some rs \<Rightarrow> marshalled_entries rs)"

text \<open>
  \<^verbatim>\<open>
  func (m *MarshallableSchema) Unmarshal() shim.Schema {
      return (&schema.Schema{
          Type: m.Type, Optional: m.Optional, Required: m.Required, Computed: m.Computed,
          ForceNew: m.ForceNew, Elem: m.Elem.Unmarshal(), MaxItems: m.MaxItems,
          MinItems: m.MinItems, Deprecated: m.DeprecationMessage,
      }).Shim()
  }

  func (m MarshallableResource) Unmarshal() shim.Resource {
      s := schema.SchemaMap{}
      for k, v := range m {
          s[k] = v.Unmarshal()
      }
      return (&schema.Resource{Schema: s}).Shim()
  }

  func (m *MarshallableElem) Unmarshal() interface{} {
      switch {
      case m == nil:
          return nil
      case m.Schema != nil:
          return m.Schema.Unmarshal()
      default:
          return m.Resource.Unmarshal()
      }
  }
  \<close>
  The struct literals leave every other field at its zero value: \<open>zx\<close> for the rest of a
  schema, \<open>zy\<close> for the rest of a resource. Ranging over a nil map visits nothing.
\<close>

primrec UnmarshalSchema :: "'x \<Rightarrow> 'y \<Rightarrow> MarshallableSchema \<Rightarrow> ('x, 'y) shimSchema"
  and UnmarshalElem :: "'x \<Rightarrow> 'y \<Rightarrow> MarshallableElem \<Rightarrow> ('x, 'y) shimElem"
where
  "UnmarshalSchema zx zy (MarshallableSchema t opt req com fnew e mx mn dep) =
     ShimSchema t opt req com fnew
       (case map_option (UnmarshalElem zx zy) e of None \<Rightarrow> ElemNil | Some v \<Rightarrow> v)
       mx mn dep zx"
| "UnmarshalElem zx zy (MarshallableElem s r) =
     (case map_option (UnmarshalSchema zx zy) s of
        Some v \<Rightarrow> ElemSchema v
      | None \<Rightarrow>
          ElemResource (ShimResource
            (Some (case map_option (fmmap (UnmarshalSchema zx zy)) r of
                     None \<Rightarrow> fmempty
                   | Some entries \<Rightarrow> entries))
            zy))"

definition UnmarshalResource ::
  "'x \<Rightarrow> 'y \<Rightarrow> MarshallableResource \<Rightarrow> ('x, 'y) shimResource" where
  "UnmarshalResource zx zy m =
     ShimResource
       (Some (case m of None \<Rightarrow> fmempty | Some entries \<Rightarrow> fmmap (UnmarshalSchema zx zy) entries))
       zy"

definition UnmarshalElemPtr ::
  "'x \<Rightarrow> 'y \<Rightarrow> MarshallableElem option \<Rightarrow> ('x, 'y) shimElem" where
  "UnmarshalElemPtr zx zy m = (case m of None \<Rightarrow> ElemNil | Some e \<Rightarrow> UnmarshalElem zx zy e)"

text \<open>
  A schema whose elements, at every depth, are nil, schemas or resources: the schemas
  the assertion of \<open>MarshalElem\<close> accepts.
\<close>

primrec elements_known :: "('x, 'y) shimSchema \<Rightarrow> bool"
  and elements_known_elem :: "('x, 'y) shimElem \<Rightarrow> bool"
  and elements_known_resource :: "('x, 'y) shimResource \<Rightarrow> bool"
where
  "elements_known (ShimSchema t opt req com fnew e mx mn dep x) = elements_known_elem e"
| "elements_known_elem ElemNil = True"
| "elements_known_elem (ElemSchema v) = elements_known v"
| "elements_known_elem (ElemResource v) = elements_known_resource v"
| "elements_known_elem ElemOther = False"
| "elements_known_resource (ShimResource schema y) =
     (case map_option (fmmap elements_known) schema of
        None \<Rightarrow> True
      | Some known \<Rightarrow> fmpred (\<lambda>k b. b) known)"

text \<open>
  Agreement of two schemas on the persisted fields: the same Type, Optional, Required,
  Computed, ForceNew, MaxItems, MinItems and deprecation message, and elements that
  agree in turn: both nil, both schemas that agree, or both resources whose schema maps
  have the same keys with agreeing schemas under each key. A nil schema map has no
  entries, as an empty one. The rest of a schema and of a resource is not compared.
\<close>

definition same_entries :: "('k, 'b \<Rightarrow> bool) fmap \<Rightarrow> ('k, 'b) fmap \<Rightarrow> bool" where
  "same_entries expected found =
     (fmdom expected = fmdom found \<and>
      fmpred (\<lambda>k v. case fmlookup expected k of None \<Rightarrow> False | Some agreeing \<Rightarrow> agreeing v)
        found)"

primrec agrees :: "('x, 'y) shimSchema \<Rightarrow> ('a, 'b) shimSchema \<Rightarrow> bool"
  and agrees_elem :: "('x, 'y) shimElem \<Rightarrow> ('a, 'b) shimElem \<Rightarrow> bool"
  and agrees_resource :: "('x, 'y) shimResource \<Rightarrow> ('a, 'b) shimResource \<Rightarrow> bool"
where
  "agrees (ShimSchema t opt req com fnew e mx mn dep x) s' =
     (Type s' = t \<and> Optional s' = opt \<and> Required s' = req \<and> Computed s' = com \<and>
      ForceNew s' = fnew \<and> MaxItems s' = mx \<and> MinItems s' = mn \<and> Deprecated s' = dep \<and>
      agrees_elem e (Elem s'))"
| "agrees_elem ElemNil e' = (case e' of ElemNil \<Rightarrow> True | _ \<Rightarrow> False)"
| "agrees_elem (ElemSchema v) e' = (case e' of ElemSchema v' \<Rightarrow> agrees v v' | _ \<Rightarrow> False)"
| "agrees_elem (ElemResource r) e' =
     (case e' of ElemResource r' \<Rightarrow> agrees_resource r r' | _ \<Rightarrow> False)"
| "agrees_elem ElemOther e' = (case e' of ElemOther \<Rightarrow> True | _ \<Rightarrow> False)"
| "agrees_resource (ShimResource schema y) r' =
     same_entries
       (case map_option (fmmap agrees) schema of None \<Rightarrow> fmempty | Some entries \<Rightarrow> entries)
       (case ResourceSchema r' of None \<Rightarrow> fmempty | Some entries \<Rightarrow> entries)"

text \<open>
  Schemas to marshal: a required list of objects with one optional string attribute,
  as a nested resource; and an optional list of strings, with a schema as its element.
  The rest of each schema is a description.
\<close>

definition sample_schema :: "(string, unit) shimSchema" where
  "sample_schema =
     ShimSchema 5 False True False True
       (ElemResource (ShimResource
          (Some (fmupd ''name''
                   (ShimSchema 4 True False False False ElemNil 0 0 ''use id'' ''The name.'')
                   fmempty))
          ()))
       3 1 [] ''The volumes.''"

definition list_of_strings :: "(string, unit) shimSchema" where
  "list_of_strings =
     ShimSchema 5 True False False False
       (ElemSchema (ShimSchema 4 False False False False ElemNil 0 0 [] ''An address.''))
       0 0 [] ''The addresses.''"

section \<open>Marshallable default information\<close>

text \<open>
  \<^verbatim>\<open>
  type DefaultInfo struct {
      AutoNamed bool
      Config string
      From func(res *PulumiResource) (interface{}, error)
      ComputeDefault func(ctx context.Context, opts ComputeDefaultOptions) (interface{}, error)
      Value interface{}
      EnvVars []string
  }
  type MarshallableDefaultInfo struct {
      AutoNamed bool        `json:"autonamed,omitempty"`
      IsFunc    bool        `json:"isFunc,omitempty"`
      Value     interface{} `json:"value,omitempty"`
      EnvVars   []string    `json:"envvars,omitempty"`
  }
  \<close>
  A function field is \<open>None\<close> when nil. A call of such a function returns a value and
  an optional error, or panics. The types of the context, the options, the resource
  bundle and the raw value are parameters.
\<close>

record ('c, 'o, 'r, 'v) DefaultInfo =
  AutoNamed :: bool
  Config :: string
  From :: "('r \<Rightarrow> panic + 'v \<times> go_error option) option"
  ComputeDefault :: "('c \<Rightarrow> 'o \<Rightarrow> panic + 'v \<times> go_error option) option"
  Value :: 'v
  EnvVars :: "string list"

record 'v MarshallableDefaultInfo =
  AutoNamed' :: bool
  IsFunc :: bool
  Value' :: 'v
  EnvVars' :: "string list"

text \<open>
  \<^verbatim>\<open>
  func MarshalDefaultInfo(d *DefaultInfo) *MarshallableDefaultInfo {
      if d == nil {
          return nil
      }
      return &MarshallableDefaultInfo{
          AutoNamed: d.AutoNamed,
          IsFunc:    d.From != nil || d.ComputeDefault != nil,
          Value:     d.Value,
          EnvVars:   d.EnvVars,
      }
  }
  \<close>
\<close>

definition MarshalDefaultInfo ::
  "('c, 'o, 'r, 'v) DefaultInfo option \<Rightarrow> 'v MarshallableDefaultInfo option" where
  "MarshalDefaultInfo d =
     (case d of
        None \<Rightarrow> None
      | Some d \<Rightarrow>
          Some \<lparr> AutoNamed' = AutoNamed d,
                 IsFunc = (\<not> Option.is_none (From d) \<or> \<not> Option.is_none (ComputeDefault d)),
                 Value' = Value d,
                 EnvVars' = EnvVars d \<rparr>)"

text \<open>
  \<^verbatim>\<open>
  func (m *MarshallableDefaultInfo) Unmarshal() *DefaultInfo {
      if m == nil {
          return nil
      }
      defInfo := &DefaultInfo{
          AutoNamed: m.AutoNamed,
          Value:     m.Value,
          EnvVars:   m.EnvVars,
      }
      if m.IsFunc {
          defInfo.ComputeDefault = func(context.Context, ComputeDefaultOptions) (interface{}, error) {
              panic("transforms cannot be run on unmarshaled DefaultInfo values")
          }
      }
      return defInfo
  }
  \<close>
\<close>

definition UnmarshalDefaultInfo ::
  "'v MarshallableDefaultInfo option \<Rightarrow> ('c, 'o, 'r, 'v) DefaultInfo option" where
  "UnmarshalDefaultInfo m =
     (case m of
        None \<Rightarrow> None
      | Some m \<Rightarrow>
          Some \<lparr> AutoNamed = AutoNamed' m,
                 Config = '''',
                 From = None,
                 ComputeDefault =
                   (if IsFunc m
                    then Some (\<lambda>c opts. Inl (PanicString
                           ''transforms cannot be run on unmarshaled DefaultInfo values''))
                    else None),
                 Value = Value' m,
                 EnvVars = EnvVars' m \<rparr>)"

text \<open>
  Default information to marshal: an auto-named default computed by the deprecated
  \<open>From\<close> function, and a literal default with no function.
\<close>

definition computed_default :: "(unit, unit, string, string) DefaultInfo" where
  "computed_default =
     \<lparr> AutoNamed = True, Config = ''region'',
       From = Some (\<lambda>res. Inr (res @ ''-1a2b3c'', None)), ComputeDefault = None,
       Value = '''', EnvVars = [''RAILWAY_NAME''] \<rparr>"

definition literal_default :: "(unit, unit, string, string) DefaultInfo" where
  "literal_default =
     \<lparr> AutoNamed = False, Config = '''', From = None, ComputeDefault = None,
       Value = ''Managed by Pulumi'', EnvVars = [] \<rparr>"

section \<open>Value conversion engine\<close>

text \<open>
  The conversion functions \<^verbatim>\<open>ConvertTFValueToProperty\<close> and \<^verbatim>\<open>ConvertPropertyToTFValue\<close> are
  called by \<^verbatim>\<open>convert_test.go\<close>; the file that defines them is not among the sources. This section
  follows the specification's data model and its description of the engine.
\<close>

text \<open>
  Modelled from the spec: the typed value model (\<^verbatim>\<open>tftypes.Value\<close>). A typed value has a
  type descriptor attached and is null, unknown, or known: a bool, a number, a string,
  a list of typed values or an object of typed values by field name. A typed number
  is of arbitrary precision; its type stays the parameter \<open>'n\<close>.
\<close>

datatype 'n TypedValue =
  Typed (typeOf: TypeDescriptor) (stateOf: "'n TypedState")
and 'n TypedState =
    Null
  | Unknown
  | KnownBool bool
  | KnownNumber 'n
  | KnownString string
  | KnownList "'n TypedValue list"
  | KnownObject "(string, 'n TypedValue) fmap"

text \<open>
  Modelled from the spec: the conversion-mismatch error, reported with the type
  descriptor and the offending value.
\<close>

datatype ('n, 'f) ConversionError =
    TypedMismatch TypeDescriptor "'n TypedValue"
  | PropertyMismatch TypeDescriptor "'f PropertyValue"

text \<open>
  Modelled from the spec: the two number conversions, from an arbitrary-precision
  typed number to the 64-bit float of a property number and back. The engine takes
  both as parameters; the instance that rounds to the 64-bit float is
  \<open>binary64\<close>, in the section on numbers.
\<close>

record ('n, 'f) numbers =
  toFloat64 :: "'n \<Rightarrow> 'f"
  ofFloat64 :: "'f \<Rightarrow> 'n"

text \<open>
  Modelled from the spec: the zero or default-shaped property value of a type
  descriptor: the empty string for String, 0 for Number, false for Bool, the empty
  array or object for the composites.
\<close>

fun zeroValue :: "TypeDescriptor \<Rightarrow> ('f::zero) PropertyValue" where
  "zeroValue Bool = BoolProperty False"
| "zeroValue Number = NumberProperty 0"
| "zeroValue String = StringProperty ''''"
| "zeroValue (List e) = ArrayProperty []"
| "zeroValue (Object attrs) = ObjectProperty fmempty"

text \<open>The results of converting a sequence, or the first error in its order.\<close>

fun all_or_first_error :: "('e + 'a) list \<Rightarrow> 'e + 'a list" where
  "all_or_first_error [] = Inr []"
| "all_or_first_error (Inl e # rs) = Inl e"
| "all_or_first_error (Inr x # rs) =
     (case all_or_first_error rs of Inl e \<Rightarrow> Inl e | Inr xs \<Rightarrow> Inr (x # xs))"

text \<open>
  Modelled from the spec: the structural conversion of a typed value to a property
  value, by type descriptor. Null becomes null; unknown becomes computed, wrapping the
  zero value of the descriptor; bool and string are carried over; a number goes through
  the float conversion; a list is converted element by element in order, an object
  field by field under the same keys. A value whose attached type or shape is not the
  descriptor's is a conversion error.
\<close>

fun convertTyped ::
  "('n, 'f::zero) numbers \<Rightarrow> TypeDescriptor \<Rightarrow> 'n TypedValue
     \<Rightarrow> ('n, 'f) ConversionError + 'f PropertyValue" where
  "convertTyped N D v =
     (if typeOf v \<noteq> D then Inl (TypedMismatch D v)
      else case (stateOf v, D) of
        (Null, _) \<Rightarrow> Inr NullProperty
      | (Unknown, _) \<Rightarrow> Inr (ComputedProperty (zeroValue D))
      | (KnownBool b, Bool) \<Rightarrow> Inr (BoolProperty b)
      | (KnownNumber n, Number) \<Rightarrow> Inr (NumberProperty (toFloat64 N n))
      | (KnownString s, String) \<Rightarrow> Inr (StringProperty s)
      | (KnownList vs, List e) \<Rightarrow>
          (case all_or_first_error (map (convertTyped N e) vs) of
             Inl err \<Rightarrow> Inl err
           | Inr ps \<Rightarrow> Inr (ArrayProperty ps))
      | (KnownObject m, Object attrs) \<Rightarrow>
          (if fmdom m \<noteq> fset_of_list (map fst attrs) then Inl (TypedMismatch D v)
           else case all_or_first_error
                  (map (\<lambda>attr.
                      case fmlookup m (fst attr) of
                        None \<Rightarrow> Inl (TypedMismatch D v)
                      | Some x \<Rightarrow>
                          (case convertTyped N (snd attr) x of
                             Inl err \<Rightarrow> Inl err
                           | Inr p \<Rightarrow> Inr (fst attr, p)))
                    attrs) of
             Inl err \<Rightarrow> Inl err
           | Inr ps \<Rightarrow> Inr (ObjectProperty (fmap_of_list ps)))
      | _ \<Rightarrow> Inl (TypedMismatch D v))"

declare convertTyped.simps [simp del]

text \<open>
  Modelled from the spec: \<^verbatim>\<open>ConvertTFValueToProperty\<close>, with the optional flag that says
  the value is secret: when set, the result of a successful structural conversion is
  wrapped in a secret.
\<close>

definition ConvertTFValueToProperty ::
  "('n, 'f::zero) numbers \<Rightarrow> bool \<Rightarrow> TypeDescriptor \<Rightarrow> 'n TypedValue
     \<Rightarrow> ('n, 'f) ConversionError + 'f PropertyValue" where
  "ConvertTFValueToProperty N secret D v =
     (case convertTyped N D v of
        Inl err \<Rightarrow> Inl err
      | Inr p \<Rightarrow> Inr (if secret then SecretProperty p else p))"

text \<open>
  Modelled from the spec: \<^verbatim>\<open>ConvertPropertyToTFValue\<close>. A secret is unwrapped first. Null
  becomes typed null and a computed value becomes typed unknown of the descriptor,
  whatever it wraps. Otherwise the shape must be the descriptor's: bool and string are
  carried over, a number goes through the float conversion, an array is converted
  element by element and an object field by field. Every other combination, an
  output among them (the specification gives it no conversion), is a conversion error.
\<close>

fun ConvertPropertyToTFValue ::
  "('n, 'f) numbers \<Rightarrow> TypeDescriptor \<Rightarrow> 'f PropertyValue
     \<Rightarrow> ('n, 'f) ConversionError + 'n TypedValue" where
  "ConvertPropertyToTFValue N D (SecretProperty element) = ConvertPropertyToTFValue N D element"
| "ConvertPropertyToTFValue N D NullProperty = Inr (Typed D Null)"
| "ConvertPropertyToTFValue N D (ComputedProperty placeholder) = Inr (Typed D Unknown)"
| "ConvertPropertyToTFValue N Bool (BoolProperty b) = Inr (Typed Bool (KnownBool b))"
| "ConvertPropertyToTFValue N Number (NumberProperty x) =
     Inr (Typed Number (KnownNumber (ofFloat64 N x)))"
| "ConvertPropertyToTFValue N String (StringProperty s) = Inr (Typed String (KnownString s))"
| "ConvertPropertyToTFValue N (List e) (ArrayProperty ps) =
     (case all_or_first_error (map (ConvertPropertyToTFValue N e) ps) of
        Inl err \<Rightarrow> Inl err
      | Inr vs \<Rightarrow> Inr (Typed (List e) (KnownList vs)))"
| "ConvertPropertyToTFValue N (Object attrs) (ObjectProperty m) =
     (if fmdom m \<noteq> fset_of_list (map fst attrs)
      then Inl (PropertyMismatch (Object attrs) (ObjectProperty m))
      else case all_or_first_error
             (map (\<lambda>attr.
                 case fmlookup m (fst attr) of
                   None \<Rightarrow> Inl (PropertyMismatch (Object attrs) (ObjectProperty m))
                 | Some p \<Rightarrow>
                     (case ConvertPropertyToTFValue N (snd attr) p of
                        Inl err \<Rightarrow> Inl err
                      | Inr v \<Rightarrow> Inr (fst attr, v)))
               attrs) of
        Inl err \<Rightarrow> Inl err
      | Inr vs \<Rightarrow> Inr (Typed (Object attrs) (KnownObject (fmap_of_list vs))))"
| "ConvertPropertyToTFValue N D p = Inl (PropertyMismatch D p)"

text \<open>Numbers to run the engine on: integers on both sides, converted unchanged.\<close>

definition integers :: "(int, int) numbers" where
  "integers = \<lparr> toFloat64 = (\<lambda>n. n), ofFloat64 = (\<lambda>x. x) \<rparr>"

text \<open>
  Modelled from the spec: a known typed value of shape \<open>D\<close>: its attached type is \<open>D\<close> and
  its tag is the one \<open>D\<close> asks for (elements and fields are checked as they are
  converted).
\<close>

fun knownOfShape :: "TypeDescriptor \<Rightarrow> 'n TypedValue \<Rightarrow> bool" where
  "knownOfShape Bool (Typed T (KnownBool b)) = (T = Bool)"
| "knownOfShape Number (Typed T (KnownNumber n)) = (T = Number)"
| "knownOfShape String (Typed T (KnownString s)) = (T = String)"
| "knownOfShape (List e) (Typed T (KnownList vs)) = (T = List e)"
| "knownOfShape (Object attrs) (Typed T (KnownObject m)) = (T = Object attrs)"
| "knownOfShape D v = False"

section \<open>Numbers\<close>

text \<open>
  Modelled from the spec: a typed number is an arbitrary-precision binary float
  (\<^verbatim>\<open>*big.Float\<close>), a property number a 64-bit float (\<^verbatim>\<open>convert_test.go\<close> builds property
  numbers from \<^verbatim>\<open>float64\<close> values). Both are modelled as a real number or an infinity;
  a 64-bit float is such a value with a significand of at most 53 bits and an exponent
  within the format's range. The sign of a zero is not modelled.
\<close>

datatype bigfloat = Finite real | PlusInf | MinusInf

instantiation bigfloat :: zero
begin

definition zero_bigfloat :: bigfloat where
  "zero_bigfloat = Finite 0"

instance ..

end

text \<open>
  Rounding to the nearest integer, a tie going to the even one; the binary exponent of
  a non-zero number \<open>x\<close>, that is the \<open>e\<close> with \<open>2 ^ e \<le> \<bar>x\<bar> < 2 ^ (e + 1)\<close>; and rounding
  \<open>x\<close> to the nearest multiple of \<open>2 ^ s\<close>.
\<close>

definition round_half_even :: "real \<Rightarrow> int" where
  "round_half_even y =
     (let f = \<lfloor>y\<rfloor>; d = y - of_int f
      in if d < 1 / 2 then f
         else if 1 / 2 < d then f + 1
         else if even f then f else f + 1)"

definition binary_exponent :: "real \<Rightarrow> int" where
  "binary_exponent x = \<lfloor>log 2 \<bar>x\<bar>\<rfloor>"

definition round_at :: "int \<Rightarrow> real \<Rightarrow> real" where
  "round_at s x = sgn x * of_int (round_half_even (\<bar>x\<bar> / 2 powr of_int s)) * 2 powr of_int s"

text \<open>
  Rounding to 53 bits of significand, to nearest and ties to even: the unit is 52
  binary places below the leading bit.
\<close>

definition round_to_53_bits :: "real \<Rightarrow> real" where
  "round_to_53_bits x = (if x = 0 then 0 else round_at (binary_exponent x - 52) x)"

text \<open>
  Modelled from the spec: the conversion of a typed number to a property number, which
  preserves the value up to the 64-bit floating-point representation. It rounds to the
  nearest 64-bit float, ties to even (what \<^verbatim>\<open>big.Float.Float64\<close> does): to 53 bits of
  significand, but with no unit below \<open>2 ^ - 1074\<close>, the spacing of the subnormal numbers,
  and to an infinity when the rounded magnitude reaches \<open>2 ^ 1024\<close>.
\<close>

fun Float64 :: "bigfloat \<Rightarrow> bigfloat" where
  "Float64 (Finite x) =
     (if x = 0 then Finite 0
      else let s = max (binary_exponent x - 52) (- 1074);
               y = round_at s x
           in if 2 powr 1024 \<le> \<bar>y\<bar> then (if 0 < x then PlusInf else MinusInf)
              else Finite y)"
| "Float64 PlusInf = PlusInf"
| "Float64 MinusInf = MinusInf"

text \<open>
  Modelled from the spec: the conversion of a property number to a typed number is
  exact (\<^verbatim>\<open>big.NewFloat\<close>).
\<close>

definition NewFloat :: "bigfloat \<Rightarrow> bigfloat" where
  "NewFloat f = f"

definition binary64 :: "(bigfloat, bigfloat) numbers" where
  "binary64 = \<lparr> toFloat64 = Float64, ofFloat64 = NewFloat \<rparr>"

text \<open>
  The comparison of the test, at 53 bits of precision:
  \<^verbatim>\<open>
  func normNum(v tftypes.Value) interface{} {
      var f big.Float
      if err := v.As(&f); err != nil {
          panic(err)
      }
      return f.SetPrec(53)
  }
  \<close>
  \<^verbatim>\<open>Value.As\<close> and \<^verbatim>\<open>SetPrec\<close> are the libraries': \<^verbatim>\<open>As\<close> fails on an unknown value and on a
  known value that is not a number (the error texts are abridged here), and reads a
  null value as 0; \<^verbatim>\<open>SetPrec(53)\<close> rounds a finite number to 53 bits and keeps an infinity.
\<close>

fun SetPrec53 :: "bigfloat \<Rightarrow> bigfloat" where
  "SetPrec53 (Finite x) = Finite (round_to_53_bits x)"
| "SetPrec53 PlusInf = PlusInf"
| "SetPrec53 MinusInf = MinusInf"

fun As_bigFloat :: "bigfloat TypedValue \<Rightarrow> go_error + bigfloat" where
  "As_bigFloat (Typed T Unknown) = Inl ''unmarshaling unknown values is not supported''"
| "As_bigFloat (Typed T Null) = Inr (Finite 0)"
| "As_bigFloat (Typed T (KnownNumber f)) = Inr f"
| "As_bigFloat (Typed T other) = Inl ''cannot unmarshal the value into *big.Float''"

definition normNum :: "bigfloat TypedValue \<Rightarrow> panic + bigfloat" where
  "normNum v =
     (case As_bigFloat v of
        Inl err \<Rightarrow> Inl (PanicError err)
      | Inr f \<Rightarrow> Inr (SetPrec53 f))"

text \<open>
  The normal range of the 64-bit float: from \<open>2 ^ - 1022\<close>, the smallest normal number,
  to \<open>(2 ^ 53 - 1) * 2 ^ 971\<close>, the largest finite one.
\<close>

definition in_normal_range :: "real \<Rightarrow> bool" where
  "in_normal_range x \<longleftrightarrow> 2 powr (- 1022) \<le> \<bar>x\<bar> \<and> \<bar>x\<bar> \<le> (2 ^ 53 - 1) * 2 powr 971"


section \<open>Naming rule: theorems\<close>

text \<open>
  C6. For every attribute name and type descriptor, \<open>toPropertyKey\<close> returns the plural
  form exactly when the type is a list type, singularizing the plural gives the name
  back, and the plural differs from the name; in every other case it returns the name
  unchanged. The function is total: there is no error result.
\<close>

theorem toPropertyKey_rule:
  "toPropertyKey I s t =
     (if Is_List t \<and> Singularize I (Pluralize I s) = s \<and> Pluralize I s \<noteq> s
      then Pluralize I s else s)"
  by (simp add: toPropertyKey_def willPluralize_def Let_def)

text \<open>The rule at work: a list attribute is pluralized, a string attribute is not.\<close>

lemma toPropertyKey_examples:
  "toPropertyKey small_inflector ''instance'' (List String) = ''instances''"
  "toPropertyKey small_inflector ''instance'' String = ''instance''"
  "toPropertyKey small_inflector ''instances'' (List String) = ''instances''"
  by (simp_all add: toPropertyKey_def willPluralize_def small_inflector_def
        pluralize_word_def singularize_word_def)

text \<open>
  C7 as stated fails. The rule asks the inflector nothing about the plural form it
  returns. An irregular plural does not look like a plural to the regular rule: the
  small inflector maps man to men, and men to mens (and mens back to men), so the name
  man under a list type becomes men, and men becomes mens.
\<close>

theorem toPropertyKey_not_idempotent:
  "willPluralize small_inflector ''man'' (List String) \<and>
   toPropertyKey small_inflector ''man'' (List String) = ''men'' \<and>
   toPropertyKey small_inflector
       (toPropertyKey small_inflector ''man'' (List String)) (List String) = ''mens''"
  by (simp add: toPropertyKey_def willPluralize_def small_inflector_def
        pluralize_word_def singularize_word_def)

text \<open>
  C7, amended. For every name and list type such that \<open>toPropertyKey\<close> pluralizes the
  name, and such that pluralizing the plural form again either leaves it unchanged or
  is not undone by singularizing, a second application returns the plural form
  unchanged.
\<close>

theorem toPropertyKey_idempotent:
  assumes "Is_List t"
    and "willPluralize I s t"
    and "Pluralize I (Pluralize I s) = Pluralize I s
         \<or> Singularize I (Pluralize I (Pluralize I s)) \<noteq> Pluralize I s"
  shows "toPropertyKey I (toPropertyKey I s t) t = toPropertyKey I s t"
proof -
  have first: "toPropertyKey I s t = Pluralize I s"
    using assms(2) by (simp add: toPropertyKey_def)
  have "\<not> willPluralize I (Pluralize I s) t"
    using assms(3) by (auto simp: willPluralize_def Let_def)
  then have "toPropertyKey I (Pluralize I s) t = Pluralize I s"
    by (simp add: toPropertyKey_def)
  with first show ?thesis by simp
qed

theorem toPropertyKey_idempotent_witness:
  "Is_List (List String) \<and>
   willPluralize small_inflector ''instance'' (List String) \<and>
   Pluralize small_inflector (Pluralize small_inflector ''instance'')
     = Pluralize small_inflector ''instance'' \<and>
   toPropertyKey small_inflector
       (toPropertyKey small_inflector ''instance'' (List String)) (List String)
     = toPropertyKey small_inflector ''instance'' (List String) \<and>
   toPropertyKey small_inflector ''instance'' (List String) = ''instances''"
proof -
  have a: "Is_List (List String)" by simp
  have b: "willPluralize small_inflector ''instance'' (List String)"
    by (simp add: willPluralize_def small_inflector_def pluralize_word_def singularize_word_def)
  have c: "Pluralize small_inflector (Pluralize small_inflector ''instance'')
           = Pluralize small_inflector ''instance''"
    by (simp add: small_inflector_def pluralize_word_def)
  have d: "toPropertyKey small_inflector ''instance'' (List String) = ''instances''"
    by (simp add: toPropertyKey_def willPluralize_def small_inflector_def
          pluralize_word_def singularize_word_def)
  from toPropertyKey_idempotent [OF a b disjI1 [OF c]] a b c d show ?thesis by simp
qed
section \<open>Schema-only provider adapter: theorems\<close>

lemma HasError_iff: "HasError diags \<longleftrightarrow> (\<exists>d \<in> set diags. Severity d = SeverityError)"
  by (simp add: HasError_def list_ex_iff)

text \<open>
  All fifteen runtime operations panic, whatever the adapter and the arguments: no
  branch of any of them returns.
\<close>

theorem runtime_operations_always_panic:
  "(\<exists>msg. Validate p c rc = Inl (PanicString msg)) \<and>
   (\<exists>msg. ValidateResource p c t rc = Inl (PanicString msg)) \<and>
   (\<exists>msg. ValidateDataSource p c t rc = Inl (PanicString msg)) \<and>
   (\<exists>msg. Configure p c rc = Inl (PanicString msg)) \<and>
   (\<exists>msg. Diff p c t s rc opts = Inl (PanicString msg)) \<and>
   (\<exists>msg. Apply p c t s d = Inl (PanicString msg)) \<and>
   (\<exists>msg. Refresh p c t s rc = Inl (PanicString msg)) \<and>
   (\<exists>msg. ReadDataDiff p c t rc = Inl (PanicString msg)) \<and>
   (\<exists>msg. ReadDataApply p c t d = Inl (PanicString msg)) \<and>
   (\<exists>msg. Meta p c = Inl (PanicString msg)) \<and>
   (\<exists>msg. Stop p c = Inl (PanicString msg)) \<and>
   (\<exists>msg. InitLogging p c = Inl (PanicString msg)) \<and>
   (\<exists>msg. NewDestroyDiff p c t topts = Inl (PanicString msg)) \<and>
   (\<exists>msg. NewResourceConfig p c m = Inl (PanicString msg)) \<and>
   (\<exists>msg. IsSet p c v = Inl (PanicString msg))"
  by (simp add: Validate_def ValidateResource_def ValidateDataSource_def Configure_def
        Diff_def Apply_def Refresh_def ReadDataDiff_def ReadDataApply_def Meta_def Stop_def
        InitLogging_def NewDestroyDiff_def NewResourceConfig_def IsSet_def)

text \<open>Fourteen of them name themselves in the message.\<close>

theorem runtime_operations_named:
  "Validate p c rc = Inl (not_implemented ''Validate'') \<and>
   ValidateResource p c t rc = Inl (not_implemented ''ValidateResource'') \<and>
   ValidateDataSource p c t rc = Inl (not_implemented ''ValidateDataSource'') \<and>
   Configure p c rc = Inl (not_implemented ''Configure'') \<and>
   Diff p c t s rc opts = Inl (not_implemented ''Diff'') \<and>
   Apply p c t s d = Inl (not_implemented ''Apply'') \<and>
   Refresh p c t s rc = Inl (not_implemented ''Refresh'') \<and>
   ReadDataDiff p c t rc = Inl (not_implemented ''ReadDataDiff'') \<and>
   ReadDataApply p c t d = Inl (not_implemented ''ReadDataApply'') \<and>
   Meta p c = Inl (not_implemented ''Meta'') \<and>
   Stop p c = Inl (not_implemented ''Stop'') \<and>
   InitLogging p c = Inl (not_implemented ''InitLogging'') \<and>
   NewDestroyDiff p c t topts = Inl (not_implemented ''NewDestroyDiff'') \<and>
   IsSet p c v = Inl (not_implemented ''IsSet'')"
  by (simp add: not_implemented_def Validate_def ValidateResource_def
        ValidateDataSource_def Configure_def Diff_def Apply_def Refresh_def ReadDataDiff_def
        ReadDataApply_def Meta_def Stop_def InitLogging_def NewDestroyDiff_def IsSet_def)

text \<open>
  C4. Every runtime operation of the adapter fails at once, and the message names the
  operation invoked. The code departs from this at \<open>NewResourceConfig\<close>: it panics,
  but its message names ResourceConfig, which is not the operation invoked.
\<close>

theorem NewResourceConfig_names_another_operation:
  "NewResourceConfig p c m = Inl (not_implemented ''ResourceConfig'') \<and>
   NewResourceConfig p c m \<noteq> Inl (not_implemented ''NewResourceConfig'')"
  by (simp add: NewResourceConfig_def not_implemented_def)

text \<open>
  C5. If the wrapped plugin's schema computation reports a diagnostic of error
  severity, \<open>Schema()\<close> panics and returns no schema; if gathering the resource or
  data-source schemas returns an error, \<open>ResourcesMap()\<close> and \<open>DataSourcesMap()\<close> panic
  with that error. When no error occurs, each returns the schema map built from the
  plugin's response. In every case the plugin is asked exactly once.
\<close>

theorem schema_errors_are_fatal:
  "((\<exists>d \<in> set (Diagnostics (schemaResponse U p)). Severity d = SeverityError) \<longrightarrow>
      fst (SchemaOnly_Schema U p) = Inl (PanicString ''Schema() returned error diags'')) \<and>
   (\<not> (\<exists>d \<in> set (Diagnostics (schemaResponse U p)). Severity d = SeverityError) \<longrightarrow>
      fst (SchemaOnly_Schema U p) =
        Inr (newSchemaMap U (FromProviderSchema U (Schema (schemaResponse U p))))) \<and>
   snd (SchemaOnly_Schema U p) = [SchemaCall (ctx p) SchemaRequest] \<and>
   (\<forall>err. GatherResources U (context_TODO U) (tf p) = Inl err \<longrightarrow>
      fst (ResourcesMap U p) = Inl (PanicError err)) \<and>
   (\<forall>rs. GatherResources U (context_TODO U) (tf p) = Inr rs \<longrightarrow>
      fst (ResourcesMap U p) = Inr (schemaOnlyResourceMap rs)) \<and>
   snd (ResourcesMap U p) = [GatherResourcesCall (context_TODO U)] \<and>
   (\<forall>err. GatherDatasources U (context_TODO U) (tf p) = Inl err \<longrightarrow>
      fst (DataSourcesMap U p) = Inl (PanicError err)) \<and>
   (\<forall>ds. GatherDatasources U (context_TODO U) (tf p) = Inr ds \<longrightarrow>
      fst (DataSourcesMap U p) = Inr (schemaOnlyDataSourceMap ds)) \<and>
   snd (DataSourcesMap U p) = [GatherDatasourcesCall (context_TODO U)]"
proof -
  have schema: "fst (SchemaOnly_Schema U p) =
      (if HasError (Diagnostics (schemaResponse U p))
       then Inl (PanicString ''Schema() returned error diags'')
       else Inr (newSchemaMap U (FromProviderSchema U (Schema (schemaResponse U p)))))"
    by (simp add: SchemaOnly_Schema_def Let_def)
  have schema_once: "snd (SchemaOnly_Schema U p) = [SchemaCall (ctx p) SchemaRequest]"
    by (simp add: SchemaOnly_Schema_def Let_def)
  have res_once: "snd (ResourcesMap U p) = [GatherResourcesCall (context_TODO U)]"
    by (simp add: ResourcesMap_def split: sum.split)
  have ds_once: "snd (DataSourcesMap U p) = [GatherDatasourcesCall (context_TODO U)]"
    by (simp add: DataSourcesMap_def split: sum.split)
  show ?thesis
    using schema schema_once res_once ds_once
    by (simp add: HasError_iff ResourcesMap_def DataSourcesMap_def)
qed

theorem schema_errors_are_fatal_witness:
  "(\<exists>d \<in> set (Diagnostics (schemaResponse sample_utils \<lparr> ctx = (), tf = broken_plugin \<rparr>)).
       Severity d = SeverityError) \<and>
   fst (SchemaOnly_Schema sample_utils \<lparr> ctx = (), tf = broken_plugin \<rparr>)
     = Inl (PanicString ''Schema() returned error diags'') \<and>
   \<not> (\<exists>d \<in> set (Diagnostics (schemaResponse sample_utils \<lparr> ctx = (), tf = sample_plugin \<rparr>)).
       Severity d = SeverityError) \<and>
   SchemaOnly_Schema sample_utils \<lparr> ctx = (), tf = sample_plugin \<rparr>
     = (Inr [(''token'', String)], [SchemaCall () SchemaRequest]) \<and>
   GatherResources failing_utils (context_TODO failing_utils) sample_plugin
     = Inl ''resource schema failed'' \<and>
   ResourcesMap failing_utils \<lparr> ctx = (), tf = sample_plugin \<rparr>
     = (Inl (PanicError ''resource schema failed''), [GatherResourcesCall ()]) \<and>
   GatherDatasources failing_utils (context_TODO failing_utils) sample_plugin
     = Inl ''data source schema failed'' \<and>
   DataSourcesMap failing_utils \<lparr> ctx = (), tf = sample_plugin \<rparr>
     = (Inl (PanicError ''data source schema failed''), [GatherDatasourcesCall ()]) \<and>
   GatherResources sample_utils (context_TODO sample_utils) sample_plugin
     = Inr [(''thing'', [(''name'', String)])] \<and>
   ResourcesMap sample_utils \<lparr> ctx = (), tf = sample_plugin \<rparr>
     = (Inr (schemaOnlyResourceMap [(''thing'', [(''name'', String)])]),
        [GatherResourcesCall ()]) \<and>
   GatherDatasources sample_utils (context_TODO sample_utils) sample_plugin = Inr [] \<and>
   DataSourcesMap sample_utils \<lparr> ctx = (), tf = sample_plugin \<rparr>
     = (Inr (schemaOnlyDataSourceMap []), [GatherDatasourcesCall ()])"
proof -
  let ?bad = "\<lparr> ctx = (), tf = broken_plugin \<rparr>"
  let ?good = "\<lparr> ctx = (), tf = sample_plugin \<rparr>"
  have bad_resp: "Diagnostics (schemaResponse sample_utils ?bad) =
      [\<lparr> Severity = SeverityWarning, Summary = ''deprecated'', Detail = '''' \<rparr>,
       \<lparr> Severity = SeverityError, Summary = ''bad schema'', Detail = '''' \<rparr>]"
    by (simp add: schemaResponse_def broken_plugin_def sample_utils_def)
  have good_resp: "schemaResponse sample_utils ?good =
      \<lparr> Schema = [(''token'', String)], Diagnostics = [] \<rparr>"
    by (simp add: schemaResponse_def sample_plugin_def sample_utils_def)
  have gr_fail: "GatherResources failing_utils (context_TODO failing_utils) (tf ?good)
      = Inl ''resource schema failed''"
    by (simp add: failing_utils_def)
  have gd_fail: "GatherDatasources failing_utils (context_TODO failing_utils) (tf ?good)
      = Inl ''data source schema failed''"
    by (simp add: failing_utils_def)
  have gr_ok: "GatherResources sample_utils (context_TODO sample_utils) (tf ?good)
      = Inr [(''thing'', [(''name'', String)])]"
    by (simp add: sample_utils_def)
  have gd_ok: "GatherDatasources sample_utils (context_TODO sample_utils) (tf ?good) = Inr []"
    by (simp add: sample_utils_def)
  have todo: "context_TODO sample_utils = ()" "context_TODO failing_utils = ()"
    by simp_all
  have new: "newSchemaMap sample_utils = (\<lambda>s. s)" "FromProviderSchema sample_utils = (\<lambda>s. s)"
    by (simp_all add: sample_utils_def)
  note bad = schema_errors_are_fatal [of sample_utils ?bad]
  note good = schema_errors_are_fatal [of sample_utils ?good]
  note failing = schema_errors_are_fatal [of failing_utils ?good]
  have 1: "fst (SchemaOnly_Schema sample_utils ?bad)
      = Inl (PanicString ''Schema() returned error diags'')"
    using bad bad_resp by simp
  have 2: "SchemaOnly_Schema sample_utils ?good
      = (Inr [(''token'', String)], [SchemaCall () SchemaRequest])"
    using good good_resp new by (simp add: prod_eq_iff)
  have 3: "ResourcesMap failing_utils ?good
      = (Inl (PanicError ''resource schema failed''), [GatherResourcesCall ()])"
    using failing gr_fail by (simp add: prod_eq_iff)
  have 4: "DataSourcesMap failing_utils ?good
      = (Inl (PanicError ''data source schema failed''), [GatherDatasourcesCall ()])"
    using failing gd_fail by (simp add: prod_eq_iff)
  have 5: "ResourcesMap sample_utils ?good
      = (Inr (schemaOnlyResourceMap [(''thing'', [(''name'', String)])]),
         [GatherResourcesCall ()])"
    using good gr_ok by (simp add: prod_eq_iff)
  have 6: "DataSourcesMap sample_utils ?good
      = (Inr (schemaOnlyDataSourceMap []), [GatherDatasourcesCall ()])"
    using good gd_ok by (simp add: prod_eq_iff)
  show ?thesis
    using 1 2 3 4 5 6 bad_resp good_resp gr_fail gd_fail gr_ok gd_ok by simp
qed

section \<open>DelegateIDField: theorems\<close>

lemma returnID_string:
  "returnID TS field pn url (StringProperty s) = (s, None)"
  by (simp add: returnID_def)

lemma returnID_not_string:
  "\<not> IsString v \<Longrightarrow>
   returnID TS field pn url v =
     ('''', Some (delegateIDFieldError
        (''Expected '' @ quoted field @ '' property to be a string, found '' @ TS v) pn url))"
  by (cases v) (simp_all add: returnID_def)

text \<open>
  C9 as stated fails in two ways, both before the value is unwrapped. An output that is
  marked secret but not known fails the assertion on computed values; and a secret
  string with a context that carries no logger fails the assertion of \<open>GetLogger\<close>.
  Neither returns an ID.
\<close>

theorem DelegateIDField_secret_can_panic:
  "DelegateIDField (\<lambda>v. ''output'') ''name'' ''railway'' ''https://example.com''
       \<lparr> CtxLogger = Some () \<rparr>
       (fmupd ''name'' (OutputProperty (StringProperty ''srv-1'') False True []) fmempty)
     = (Inl (AssertionFailed
         (''ComputeID is only called during when preview=false, so we should never need to ''
          @ ''deal with computed properties'')), []) \<and>
   DelegateIDField (\<lambda>v. ''secret'') ''name'' ''railway'' ''https://example.com''
       \<lparr> CtxLogger = (None :: unit option) \<rparr>
       (fmupd ''name'' (SecretProperty (StringProperty ''srv-1'')) fmempty)
     = (Inl (AssertionFailed
         ''Cannot call GetLogger on a context that is not equipped with a Logger''), [])"
  by (simp add: DelegateIDField_def assertComputeID_def markedSecret_def GetLogger_def)

text \<open>
  C9, amended. For every state, field key and context: when the field is absent from
  the state, the function returns the empty ID and an error whose message names the
  missing property. When the context carries a logger and the field's value is a
  secret, or a known output marked secret, around a string, it logs one warning and
  returns that string as the ID with no error. When the field's value passes the
  assertion on computed values (it is not computed and, if an output, it is known),
  the context carries a logger if the value is marked secret, and the value (unwrapped
  if marked secret) is not a string, it returns the empty ID and an error.
\<close>

theorem DelegateIDField_cases:
  "(fmlookup state field = None \<longrightarrow>
      DelegateIDField TS field pn url c state =
        (Inr ('''', Some (delegateIDFieldError
           (''Could not find required property '' @ quoted field @ '' in state'') pn url)),
         [])) \<and>
   (\<forall>s. CtxLogger c \<noteq> None \<and>
        (fmlookup state field = Some (SecretProperty (StringProperty s)) \<or>
         (\<exists>deps. fmlookup state field
                   = Some (OutputProperty (StringProperty s) True True deps))) \<longrightarrow>
      DelegateIDField TS field pn url c state =
        (Inr (s, None),
         [Warn (''Setting non-secret resource ID as '' @ quoted field
                @ '' (which is secret)'')])) \<and>
   (\<forall>v. fmlookup state field = Some v \<and> assertComputeID v \<and>
        (markedSecret v \<longrightarrow> CtxLogger c \<noteq> None) \<and>
        \<not> IsString (if markedSecret v then unwrapped v else v) \<longrightarrow>
      (\<exists>e logged. DelegateIDField TS field pn url c state = (Inr ('''', Some e), logged)))"
proof (intro conjI allI impI)
  assume "fmlookup state field = None"
  then show "DelegateIDField TS field pn url c state =
        (Inr ('''', Some (delegateIDFieldError
           (''Could not find required property '' @ quoted field @ '' in state'') pn url)),
         [])"
    by (simp add: DelegateIDField_def)
next
  fix s
  assume a: "CtxLogger c \<noteq> None \<and>
        (fmlookup state field = Some (SecretProperty (StringProperty s)) \<or>
         (\<exists>deps. fmlookup state field
                   = Some (OutputProperty (StringProperty s) True True deps)))"
  then obtain lg where lg: "CtxLogger c = Some lg" by auto
  from a lg show "DelegateIDField TS field pn url c state =
        (Inr (s, None),
         [Warn (''Setting non-secret resource ID as '' @ quoted field
                @ '' (which is secret)'')])"
    by (auto simp: DelegateIDField_def assertComputeID_def markedSecret_def GetLogger_def
          returnID_string)
next
  fix v
  assume a: "fmlookup state field = Some v \<and> assertComputeID v \<and>
        (markedSecret v \<longrightarrow> CtxLogger c \<noteq> None) \<and>
        \<not> IsString (if markedSecret v then unwrapped v else v)"
  show "\<exists>e logged. DelegateIDField TS field pn url c state = (Inr ('''', Some e), logged)"
  proof (cases "markedSecret v")
    case True
    with a obtain lg where lg: "CtxLogger c = Some lg" by auto
    from a True have "\<not> IsString (unwrapped v)" by simp
    then show ?thesis
      using a True lg
      by (simp add: DelegateIDField_def GetLogger_def returnID_not_string)
  next
    case False
    with a have "\<not> IsString v" by simp
    then show ?thesis
      using a False
      by (simp add: DelegateIDField_def returnID_not_string)
  qed
qed

theorem DelegateIDField_cases_witness:
  "fmlookup (fmempty :: int PropertyMap) ''name'' = None \<and>
   DelegateIDField (\<lambda>v. ''number'') ''name'' ''railway'' ''https://example.com''
       \<lparr> CtxLogger = Some () \<rparr> (fmempty :: int PropertyMap)
     = (Inr ('''', Some (delegateIDFieldError
          (''Could not find required property '' @ quoted ''name'' @ '' in state'')
          ''railway'' ''https://example.com'')), []) \<and>
   DelegateIDField (\<lambda>v. ''number'') ''name'' ''railway'' ''https://example.com''
       \<lparr> CtxLogger = Some () \<rparr>
       (fmupd ''name'' (SecretProperty (StringProperty ''srv-1'')) (fmempty :: int PropertyMap))
     = (Inr (''srv-1'', None),
        [Warn (''Setting non-secret resource ID as '' @ quoted ''name''
               @ '' (which is secret)'')]) \<and>
   assertComputeID (NumberProperty (7::int)) \<and>
   \<not> markedSecret (NumberProperty (7::int)) \<and>
   \<not> IsString (NumberProperty (7::int)) \<and>
   (\<exists>e logged.
      DelegateIDField (\<lambda>v. ''number'') ''name'' ''railway'' ''https://example.com''
          \<lparr> CtxLogger = Some () \<rparr> (fmupd ''name'' (NumberProperty (7::int)) fmempty)
        = (Inr ('''', Some e), logged))"
proof -
  let ?c = "\<lparr> CtxLogger = Some () \<rparr>"
  let ?TS = "\<lambda>v :: int PropertyValue. ''number''"
  let ?secret = "fmupd ''name'' (SecretProperty (StringProperty ''srv-1''))
                   (fmempty :: int PropertyMap)"
  let ?number = "fmupd ''name'' (NumberProperty (7::int)) fmempty"
  have absent: "fmlookup (fmempty :: int PropertyMap) ''name'' = None" by simp
  have logger: "CtxLogger ?c \<noteq> None" by simp
  have secret: "fmlookup ?secret ''name'' = Some (SecretProperty (StringProperty ''srv-1''))"
    by simp
  have number: "fmlookup ?number ''name'' = Some (NumberProperty 7)" by simp
  have shape: "assertComputeID (NumberProperty (7::int))"
      "\<not> markedSecret (NumberProperty (7::int))" "\<not> IsString (NumberProperty (7::int))"
    by (simp_all add: assertComputeID_def markedSecret_def)
  note at_absent = DelegateIDField_cases
      [of "fmempty :: int PropertyMap" "''name''" ?TS "''railway''" "''https://example.com''" ?c]
  note at_secret = DelegateIDField_cases
      [of ?secret "''name''" ?TS "''railway''" "''https://example.com''" ?c]
  note at_number = DelegateIDField_cases
      [of ?number "''name''" ?TS "''railway''" "''https://example.com''" ?c]
  have 1: "DelegateIDField ?TS ''name'' ''railway'' ''https://example.com'' ?c fmempty
     = (Inr ('''', Some (delegateIDFieldError
          (''Could not find required property '' @ quoted ''name'' @ '' in state'')
          ''railway'' ''https://example.com'')), [])"
    using at_absent absent by blast
  have 2: "DelegateIDField ?TS ''name'' ''railway'' ''https://example.com'' ?c ?secret
     = (Inr (''srv-1'', None),
        [Warn (''Setting non-secret resource ID as '' @ quoted ''name''
               @ '' (which is secret)'')])"
    using at_secret secret logger by blast
  have 3: "\<exists>e logged.
      DelegateIDField ?TS ''name'' ''railway'' ''https://example.com'' ?c ?number
        = (Inr ('''', Some e), logged)"
    using at_number number shape by auto
  from 1 2 3 absent shape show ?thesis by simp
qed

text \<open>
  A plain string field is returned as the ID, with no error and nothing logged, whatever
  the context.
\<close>

theorem DelegateIDField_plain_string:
  "DelegateIDField TS field pn url c (fmupd field (StringProperty s) state) = (Inr (s, None), [])"
  by (simp add: DelegateIDField_def assertComputeID_def markedSecret_def returnID_def)

section \<open>Marshallable schemas: theorems\<close>

lemma marshalled_entries_Inr: "marshalled_entries (fmmap Inr m) = Inr m"
  by (auto simp: marshalled_entries_def fmpred_iff fmap.map_comp comp_def fmap.map_ident)

lemma marshalled_entries_eq_Inr: "marshalled_entries rs = Inr m \<longleftrightarrow> rs = fmmap Inr m"
proof
  assume a: "marshalled_entries rs = Inr m"
  then have all: "fmpred (\<lambda>k r. \<not> isl r) rs" and m: "m = fmmap projr rs"
    by (auto simp: marshalled_entries_def split: if_splits)
  show "rs = fmmap Inr m"
  proof (rule fmap_ext)
    fix k
    show "fmlookup rs k = fmlookup (fmmap Inr m) k"
    proof (cases "fmlookup rs k")
      case None
      then show ?thesis by (simp add: m)
    next
      case (Some r)
      with all have "\<not> isl r" by (auto simp: fmpred_iff)
      then obtain x where "r = Inr x" by (cases r) auto
      with Some show ?thesis by (simp add: m)
    qed
  qed
next
  assume "rs = fmmap Inr m"
  then show "marshalled_entries rs = Inr m" by (simp add: marshalled_entries_Inr)
qed

text \<open>Marshalling returns on every schema whose elements are of the known kinds.\<close>

lemma marshal_returns:
  "elements_known (s :: ('x, 'y) shimSchema) \<longrightarrow> (\<exists>m. MarshalSchema s = Inr m)"
  and "elements_known_elem (e :: ('x, 'y) shimElem) \<longrightarrow> (\<exists>m. MarshalElem e = Inr m)"
  and "elements_known_resource (r :: ('x, 'y) shimResource) \<longrightarrow>
         (\<exists>m. MarshalResource r = Inr m)"
proof (induction s and e and r)
  case (ShimResource schema y)
  show ?case
  proof (cases schema)
    case None
    then show ?thesis by simp
  next
    case (Some sm)
    show ?thesis
    proof
      assume "elements_known_resource (ShimResource schema y)"
      with Some have known: "\<And>k v. fmlookup sm k = Some v \<Longrightarrow> elements_known v"
        by (auto simp: fmpred_iff)
      have "fmpred (\<lambda>k r. \<not> isl r) (fmmap MarshalSchema sm)"
      proof (clarsimp simp: fmpred_iff)
        fix k v
        assume l: "fmlookup sm k = Some v" and i: "isl (MarshalSchema v)"
        from l have "v \<in> fmran' sm" by (rule fmran'I)
        with ShimResource Some known[OF l] obtain m where "MarshalSchema v = Inr m" by auto
        with i show False by simp
      qed
      with Some show "\<exists>m. MarshalResource (ShimResource schema y) = Inr m"
        by (simp add: marshalled_entries_def)
    qed
  qed
qed auto

text \<open>Conversely, marshalling returns only on such schemas.\<close>

lemma marshal_returns_only_known:
  "(\<exists>m. MarshalSchema (s :: ('x, 'y) shimSchema) = Inr m) \<longrightarrow> elements_known s"
  and "(\<exists>m. MarshalElem (e :: ('x, 'y) shimElem) = Inr m) \<longrightarrow> elements_known_elem e"
  and "(\<exists>m. MarshalResource (r :: ('x, 'y) shimResource) = Inr m) \<longrightarrow>
         elements_known_resource r"
proof (induction s and e and r)
  case (ShimResource schema y)
  show ?case
  proof (cases schema)
    case None
    then show ?thesis by simp
  next
    case (Some sm)
    show ?thesis
    proof
      assume "\<exists>m. MarshalResource (ShimResource schema y) = Inr m"
      with Some obtain m where "fmmap MarshalSchema sm = fmmap Inr m"
        by (auto simp: marshalled_entries_eq_Inr)
      then have each: "\<And>k. fmlookup (fmmap MarshalSchema sm) k = fmlookup (fmmap Inr m) k"
        by simp
      have "fmpred (\<lambda>k b. b) (fmmap elements_known sm)"
      proof (clarsimp simp: fmpred_iff)
        fix k v
        assume l: "fmlookup sm k = Some v"
        from l have ran: "v \<in> fmran' sm" by (rule fmran'I)
        from each [of k] l obtain mk where "MarshalSchema v = Inr mk"
          by (cases "fmlookup m k") auto
        with ShimResource Some ran show "elements_known v" by auto
      qed
      with Some show "elements_known_resource (ShimResource schema y)" by simp
    qed
  qed
qed (auto split: sum.splits)

text \<open>
  Marshalling what was unmarshalled from a marshalled schema gives the marshalled schema
  back, at every level of nesting.
\<close>

lemma marshal_unmarshal:
  "\<forall>m. MarshalSchema (s :: ('x, 'y) shimSchema) = Inr m \<longrightarrow>
        MarshalSchema (UnmarshalSchema zx zy m :: ('a, 'b) shimSchema) = Inr m"
  and "\<forall>m. MarshalElem (e :: ('x, 'y) shimElem) = Inr m \<longrightarrow>
        MarshalElem (UnmarshalElemPtr zx zy m :: ('a, 'b) shimElem) = Inr m"
  and "\<forall>m. MarshalResource (r :: ('x, 'y) shimResource) = Inr m \<longrightarrow>
        MarshalResource (UnmarshalResource zx zy (Some m) :: ('a, 'b) shimResource) = Inr m"
proof (induction s and e and r)
  case (ShimSchema t opt req com fnew e mx mn dep x)
  then show ?case
    by (auto simp: UnmarshalElemPtr_def split: sum.splits option.splits)
next
  case ElemNil
  then show ?case by (simp add: UnmarshalElemPtr_def)
next
  case (ElemSchema v)
  then show ?case by (auto simp: UnmarshalElemPtr_def split: sum.splits)
next
  case (ElemResource v)
  then show ?case by (auto simp: UnmarshalElemPtr_def UnmarshalResource_def split: sum.splits)
next
  case ElemOther
  then show ?case by simp
next
  case (ShimResource schema y)
  show ?case
  proof (cases schema)
    case None
    then show ?thesis
      by (simp add: UnmarshalResource_def marshalled_entries_def)
  next
    case (Some sm)
    show ?thesis
    proof (intro allI impI)
      fix m
      assume "MarshalResource (ShimResource schema y) = Inr m"
      with Some have eq: "fmmap MarshalSchema sm = fmmap Inr m"
        by (simp add: marshalled_entries_eq_Inr)
      have "fmmap (MarshalSchema \<circ> (UnmarshalSchema zx zy :: _ \<Rightarrow> ('a, 'b) shimSchema)) m
              = fmmap Inr m"
      proof (rule fmap_ext)
        fix k
        show "fmlookup (fmmap (MarshalSchema \<circ>
                 (UnmarshalSchema zx zy :: _ \<Rightarrow> ('a, 'b) shimSchema)) m) k
              = fmlookup (fmmap Inr m) k"
        proof (cases "fmlookup m k")
          case None
          then show ?thesis by simp
        next
          case (Some mk)
          from eq have "fmlookup (fmmap MarshalSchema sm) k = fmlookup (fmmap Inr m) k"
            by simp
          with Some obtain v where v: "fmlookup sm k = Some v" "MarshalSchema v = Inr mk"
            by (cases "fmlookup sm k") auto
          from v(1) have "v \<in> fmran' sm" by (rule fmran'I)
          with ShimResource \<open>schema = Some sm\<close> v(2)
          have "MarshalSchema (UnmarshalSchema zx zy mk :: ('a, 'b) shimSchema) = Inr mk"
            by auto
          with Some show ?thesis by simp
        qed
      qed
      then show "MarshalResource (UnmarshalResource zx zy (Some m) :: ('a, 'b) shimResource)
                   = Inr m"
        by (simp add: UnmarshalResource_def fmap.map_comp marshalled_entries_Inr)
    qed
  qed
qed

lemma UnmarshalSchema_fields:
  "Type (UnmarshalSchema zx zy m) = Type' m"
  "Optional (UnmarshalSchema zx zy m) = Optional' m"
  "Required (UnmarshalSchema zx zy m) = Required' m"
  "Computed (UnmarshalSchema zx zy m) = Computed' m"
  "ForceNew (UnmarshalSchema zx zy m) = ForceNew' m"
  "MaxItems (UnmarshalSchema zx zy m) = MaxItems' m"
  "MinItems (UnmarshalSchema zx zy m) = MinItems' m"
  "Deprecated (UnmarshalSchema zx zy m) = DeprecationMessage' m"
  "Elem (UnmarshalSchema zx zy m) = UnmarshalElemPtr zx zy (Elem' m)"
  "SchemaRest (UnmarshalSchema zx zy m) = zx"
proof -
  obtain t opt req com fnew e mx mn dep
    where "m = MarshallableSchema t opt req com fnew e mx mn dep"
    by (cases m)
  then show
    "Type (UnmarshalSchema zx zy m) = Type' m"
    "Optional (UnmarshalSchema zx zy m) = Optional' m"
    "Required (UnmarshalSchema zx zy m) = Required' m"
    "Computed (UnmarshalSchema zx zy m) = Computed' m"
    "ForceNew (UnmarshalSchema zx zy m) = ForceNew' m"
    "MaxItems (UnmarshalSchema zx zy m) = MaxItems' m"
    "MinItems (UnmarshalSchema zx zy m) = MinItems' m"
    "Deprecated (UnmarshalSchema zx zy m) = DeprecationMessage' m"
    "Elem (UnmarshalSchema zx zy m) = UnmarshalElemPtr zx zy (Elem' m)"
    "SchemaRest (UnmarshalSchema zx zy m) = zx"
    by (simp_all add: UnmarshalElemPtr_def split: option.split)
qed

lemma MarshalSchema_fields:
  assumes "MarshalSchema s = Inr m"
  shows "Type' m = Type s" "Optional' m = Optional s" "Required' m = Required s"
    "Computed' m = Computed s" "ForceNew' m = ForceNew s" "MaxItems' m = MaxItems s"
    "MinItems' m = MinItems s" "DeprecationMessage' m = Deprecated s"
    "MarshalElem (Elem s) = Inr (Elem' m)"
proof -
  obtain t opt req com fnew e mx mn dep x
    where s: "s = ShimSchema t opt req com fnew e mx mn dep x"
    by (cases s)
  with assms obtain me where "MarshalElem e = Inr me"
    and "m = MarshallableSchema t opt req com fnew me mx mn dep"
    by (auto split: sum.splits)
  with s show "Type' m = Type s" "Optional' m = Optional s" "Required' m = Required s"
    "Computed' m = Computed s" "ForceNew' m = ForceNew s" "MaxItems' m = MaxItems s"
    "MinItems' m = MinItems s" "DeprecationMessage' m = Deprecated s"
    "MarshalElem (Elem s) = Inr (Elem' m)"
    by simp_all
qed

text \<open>
  What is unmarshalled from a marshalled schema agrees with the schema on the persisted
  fields, at every level of nesting.
\<close>

lemma unmarshalled_agrees:
  "\<forall>m. MarshalSchema (s :: ('x, 'y) shimSchema) = Inr m \<longrightarrow>
        agrees s (UnmarshalSchema zx zy m :: ('a, 'b) shimSchema)"
  and "\<forall>m. MarshalElem (e :: ('x, 'y) shimElem) = Inr m \<longrightarrow>
        agrees_elem e (UnmarshalElemPtr zx zy m :: ('a, 'b) shimElem)"
  and "\<forall>m. MarshalResource (r :: ('x, 'y) shimResource) = Inr m \<longrightarrow>
        agrees_resource r (UnmarshalResource zx zy (Some m) :: ('a, 'b) shimResource)"
proof (induction s and e and r)
  case (ShimSchema t opt req com fnew e mx mn dep x)
  show ?case
  proof (intro allI impI)
    fix m
    assume m: "MarshalSchema (ShimSchema t opt req com fnew e mx mn dep x) = Inr m"
    then obtain me where me: "MarshalElem e = Inr me"
      and shape: "m = MarshallableSchema t opt req com fnew me mx mn dep"
      by (auto split: sum.splits)
    from ShimSchema me have "agrees_elem e (UnmarshalElemPtr zx zy me :: ('a, 'b) shimElem)"
      by blast
    then show "agrees (ShimSchema t opt req com fnew e mx mn dep x)
                 (UnmarshalSchema zx zy m :: ('a, 'b) shimSchema)"
      by (simp add: shape UnmarshalElemPtr_def split: option.splits)
  qed
next
  case ElemNil
  then show ?case by (simp add: UnmarshalElemPtr_def)
next
  case (ElemSchema v)
  then show ?case by (auto simp: UnmarshalElemPtr_def split: sum.splits)
next
  case (ElemResource v)
  then show ?case by (auto simp: UnmarshalElemPtr_def UnmarshalResource_def split: sum.splits)
next
  case ElemOther
  then show ?case by simp
next
  case (ShimResource schema y)
  show ?case
  proof (cases schema)
    case None
    then show ?thesis
      by (simp add: UnmarshalResource_def same_entries_def)
  next
    case (Some sm)
    show ?thesis
    proof (intro allI impI)
      fix m
      assume "MarshalResource (ShimResource schema y) = Inr m"
      with Some have eq: "fmmap MarshalSchema sm = fmmap Inr m"
        by (simp add: marshalled_entries_eq_Inr)
      then have each: "\<And>k. fmlookup (fmmap MarshalSchema sm) k = fmlookup (fmmap Inr m) k"
        by simp
      have "fmdom (fmmap MarshalSchema sm) = fmdom (fmmap Inr m)"
        using eq by simp
      then have dom: "fmdom sm = fmdom m" by simp
      have "fmpred (\<lambda>k v. case fmlookup (fmmap agrees sm) k of
                            None \<Rightarrow> False | Some agreeing \<Rightarrow> agreeing v)
              (fmmap (UnmarshalSchema zx zy :: _ \<Rightarrow> ('a, 'b) shimSchema) m)"
        unfolding fmpred_iff
      proof (intro allI impI)
        fix k v'
        assume "fmlookup (fmmap (UnmarshalSchema zx zy :: _ \<Rightarrow> ('a, 'b) shimSchema) m) k
                  = Some v'"
        then obtain mk where mk: "fmlookup m k = Some mk"
          and v': "v' = UnmarshalSchema zx zy mk"
          by (cases "fmlookup m k") auto
        with each [of k] obtain v where v: "fmlookup sm k = Some v" "MarshalSchema v = Inr mk"
          by (cases "fmlookup sm k") auto
        from v(1) have "v \<in> fmran' sm" by (rule fmran'I)
        with ShimResource Some v(2)
        have "agrees v (UnmarshalSchema zx zy mk :: ('a, 'b) shimSchema)" by auto
        with v(1) v' show "case fmlookup (fmmap agrees sm) k of
                          None \<Rightarrow> False | Some agreeing \<Rightarrow> agreeing v'"
          by simp
      qed
      with dom Some
      show "agrees_resource (ShimResource schema y)
              (UnmarshalResource zx zy (Some m) :: ('a, 'b) shimResource)"
        by (simp add: UnmarshalResource_def same_entries_def)
    qed
  qed
qed

text \<open>
  Agreement tells schemas apart: a list of strings does not agree with the same list
  without its element schema, nor with one whose element is of another type.
\<close>

lemma agrees_examples:
  "\<not> agrees list_of_strings
       (ShimSchema 5 True False False False ElemNil 0 0 [] [] :: (string, unit) shimSchema)"
  "\<not> agrees list_of_strings
       (ShimSchema 5 True False False False
          (ElemSchema (ShimSchema 2 False False False False ElemNil 0 0 [] []))
          0 0 [] [] :: (string, unit) shimSchema)"
  "agrees list_of_strings
       (ShimSchema 5 True False False False
          (ElemSchema (ShimSchema 4 False False False False ElemNil 0 0 [] []))
          0 0 [] [] :: (string, unit) shimSchema)"
  by (simp_all add: list_of_strings_def)

text \<open>
  C8. For every shim schema whose elements are nil, schemas or nested resources,
  \<open>MarshalSchema\<close> returns, and unmarshalling its result yields a schema that agrees
  with the original on the persisted fields: on Type, Optional, Required, Computed,
  ForceNew, MaxItems, MinItems and the deprecation message, and recursively on the
  nested element, be it a schema or a nested resource. The unmarshalled schema also
  marshals to the same marshallable schema: unmarshalling after marshalling is the
  identity on the marshallable representation.
\<close>

theorem marshal_schema_round_trip:
  assumes "elements_known s"
  shows "\<exists>m. MarshalSchema s = Inr m \<and>
     agrees s (UnmarshalSchema zx zy m) \<and>
     Type (UnmarshalSchema zx zy m) = Type s \<and>
     Optional (UnmarshalSchema zx zy m) = Optional s \<and>
     Required (UnmarshalSchema zx zy m) = Required s \<and>
     Computed (UnmarshalSchema zx zy m) = Computed s \<and>
     ForceNew (UnmarshalSchema zx zy m) = ForceNew s \<and>
     MaxItems (UnmarshalSchema zx zy m) = MaxItems s \<and>
     MinItems (UnmarshalSchema zx zy m) = MinItems s \<and>
     Deprecated (UnmarshalSchema zx zy m) = Deprecated s \<and>
     agrees_elem (Elem s) (Elem (UnmarshalSchema zx zy m)) \<and>
     MarshalElem (Elem (UnmarshalSchema zx zy m)) = MarshalElem (Elem s) \<and>
     MarshalSchema (UnmarshalSchema zx zy m) = Inr m"
proof -
  from marshal_returns(1) [rule_format, OF assms]
  obtain m where m: "MarshalSchema s = Inr m" ..
  have again: "MarshalSchema (UnmarshalSchema zx zy m) = Inr m"
    by (rule marshal_unmarshal(1) [rule_format, OF m])
  have agreeing: "agrees s (UnmarshalSchema zx zy m)"
    by (rule unmarshalled_agrees(1) [rule_format, OF m])
  have agreeing_elem: "agrees_elem (Elem s) (Elem (UnmarshalSchema zx zy m))"
    using agreeing by (cases s) simp
  have elem: "MarshalElem (Elem (UnmarshalSchema zx zy m)) = MarshalElem (Elem s)"
    using MarshalSchema_fields(9) [OF again] MarshalSchema_fields(9) [OF m] by simp
  note kept = MarshalSchema_fields(1-8) [OF m, symmetric]
  have "Type (UnmarshalSchema zx zy m) = Type s"
    "Optional (UnmarshalSchema zx zy m) = Optional s"
    "Required (UnmarshalSchema zx zy m) = Required s"
    "Computed (UnmarshalSchema zx zy m) = Computed s"
    "ForceNew (UnmarshalSchema zx zy m) = ForceNew s"
    "MaxItems (UnmarshalSchema zx zy m) = MaxItems s"
    "MinItems (UnmarshalSchema zx zy m) = MinItems s"
    "Deprecated (UnmarshalSchema zx zy m) = Deprecated s"
    unfolding kept by (rule UnmarshalSchema_fields)+
  with m again agreeing agreeing_elem elem show ?thesis by blast
qed

theorem marshal_schema_round_trip_witness:
  "elements_known sample_schema \<and>
   MarshalSchema sample_schema =
     Inr (MarshallableSchema 5 False True False True
       (Some (MarshallableElem None
          (Some (fmupd ''name''
                   (MarshallableSchema 4 True False False False None 0 0 ''use id'')
                   fmempty))))
       3 1 []) \<and>
   agrees sample_schema (UnmarshalSchema ''z'' ()
     (MarshallableSchema 5 False True False True
       (Some (MarshallableElem None
          (Some (fmupd ''name''
                   (MarshallableSchema 4 True False False False None 0 0 ''use id'')
                   fmempty))))
       3 1 []) :: (string, unit) shimSchema) \<and>
   MarshalSchema (UnmarshalSchema ''z'' ()
     (MarshallableSchema 5 False True False True
       (Some (MarshallableElem None
          (Some (fmupd ''name''
                   (MarshallableSchema 4 True False False False None 0 0 ''use id'')
                   fmempty))))
       3 1 []) :: (string, unit) shimSchema) = MarshalSchema sample_schema \<and>
   (UnmarshalSchema ''z'' ()
     (MarshallableSchema 5 False True False True
       (Some (MarshallableElem None
          (Some (fmupd ''name''
                   (MarshallableSchema 4 True False False False None 0 0 ''use id'')
                   fmempty))))
       3 1 []) :: (string, unit) shimSchema) \<noteq> sample_schema \<and>
   elements_known list_of_strings \<and>
   MarshalSchema list_of_strings =
     Inr (MarshallableSchema 5 True False False False
       (Some (MarshallableElem
          (Some (MarshallableSchema 4 False False False False None 0 0 [])) None))
       0 0 []) \<and>
   agrees list_of_strings (UnmarshalSchema ''z'' ()
     (MarshallableSchema 5 True False False False
       (Some (MarshallableElem
          (Some (MarshallableSchema 4 False False False False None 0 0 [])) None))
       0 0 []) :: (string, unit) shimSchema) \<and>
   (UnmarshalSchema ''z'' ()
     (MarshallableSchema 5 True False False False
       (Some (MarshallableElem
          (Some (MarshallableSchema 4 False False False False None 0 0 [])) None))
       0 0 []) :: (string, unit) shimSchema)
     = ShimSchema 5 True False False False
         (ElemSchema (ShimSchema 4 False False False False ElemNil 0 0 [] ''z''))
         0 0 [] ''z''"
proof -
  let ?m = "MarshallableSchema 5 False True False True
       (Some (MarshallableElem None
          (Some (fmupd ''name''
                   (MarshallableSchema 4 True False False False None 0 0 ''use id'')
                   fmempty))))
       3 1 []"
  let ?l = "MarshallableSchema 5 True False False False
       (Some (MarshallableElem
          (Some (MarshallableSchema 4 False False False False None 0 0 [])) None))
       0 0 []"
  have known: "elements_known sample_schema"
    by (simp add: sample_schema_def fmmap_fmupd fmpred_upd)
  have marshalled: "MarshalSchema sample_schema = Inr ?m"
    by (simp add: sample_schema_def marshalled_entries_def fmmap_fmupd fmpred_upd)
  from marshal_schema_round_trip [OF known, of "''z''" "()"]
  obtain m where m: "MarshalSchema sample_schema = Inr m"
    and agreeing: "agrees sample_schema (UnmarshalSchema ''z'' () m :: (string, unit) shimSchema)"
    and round: "MarshalSchema (UnmarshalSchema ''z'' () m :: (string, unit) shimSchema) = Inr m"
    by blast
  from m marshalled have eq: "m = ?m" by simp
  have again: "MarshalSchema (UnmarshalSchema ''z'' () ?m :: (string, unit) shimSchema) = Inr ?m"
    using round unfolding eq .
  have agreeing': "agrees sample_schema (UnmarshalSchema ''z'' () ?m :: (string, unit) shimSchema)"
    using agreeing unfolding eq .
  have lossy: "(UnmarshalSchema ''z'' () ?m :: (string, unit) shimSchema) \<noteq> sample_schema"
    by (simp add: sample_schema_def)
  have known_l: "elements_known list_of_strings"
    by (simp add: list_of_strings_def)
  have marshalled_l: "MarshalSchema list_of_strings = Inr ?l"
    by (simp add: list_of_strings_def)
  from marshal_schema_round_trip [OF known_l, of "''z''" "()"]
  obtain l where l: "MarshalSchema list_of_strings = Inr l"
    and agreeing_l: "agrees list_of_strings (UnmarshalSchema ''z'' () l :: (string, unit) shimSchema)"
    by blast
  from l marshalled_l have eq_l: "l = ?l" by simp
  have agreeing_l': "agrees list_of_strings
      (UnmarshalSchema ''z'' () ?l :: (string, unit) shimSchema)"
    using agreeing_l unfolding eq_l .
  have value_l: "(UnmarshalSchema ''z'' () ?l :: (string, unit) shimSchema)
      = ShimSchema 5 True False False False
          (ElemSchema (ShimSchema 4 False False False False ElemNil 0 0 [] ''z''))
          0 0 [] ''z''"
    by simp
  from known marshalled agreeing' again lossy known_l marshalled_l agreeing_l' value_l
  show ?thesis by (simp only: simp_thms)
qed

text \<open>
  \<open>MarshalSchema\<close> returns exactly on the schemas whose elements, at every depth, are nil,
  schemas or resources; on any other schema the assertion of \<open>MarshalElem\<close> fails.
\<close>

theorem MarshalSchema_returns_iff:
  "(\<exists>m. MarshalSchema s = Inr m) = elements_known s"
  using marshal_returns(1) marshal_returns_only_known(1) by blast

theorem MarshalSchema_unexpected_element:
  "MarshalElem ElemOther = Inl (AssertionFailed ''unexpected schema element'') \<and>
   MarshalSchema (ShimSchema t opt req com fnew ElemOther mx mn dep x)
     = Inl (AssertionFailed ''unexpected schema element'') \<and>
   MarshalSchema (ShimSchema t opt req com fnew
       (ElemSchema (ShimSchema t' opt' req' com' fnew' ElemOther mx' mn' dep' x')) mx mn dep x)
     = Inl (AssertionFailed ''unexpected schema element'')"
  by (simp add: unexpected_element_def)

text \<open>
  A resource with a nil schema map marshals to the empty map, and every unmarshalled
  resource has a schema map that is not nil: nil comes back as empty.
\<close>

theorem nil_resource_schema_comes_back_empty:
  "MarshalResource (ShimResource None y) = Inr fmempty \<and>
   ResourceSchema (UnmarshalResource zx zy (Some fmempty)) = Some fmempty \<and>
   ResourceSchema (UnmarshalResource zx zy None) = Some fmempty \<and>
   UnmarshalElem zx zy (MarshallableElem None None)
     = ElemResource (ShimResource (Some fmempty) zy)"
  by (simp add: UnmarshalResource_def)

section \<open>Marshallable default information: theorems\<close>

text \<open>
  C10. Marshalling erases the functions of a \<open>DefaultInfo\<close>. If \<open>From\<close> or
  \<open>ComputeDefault\<close> is set, the unmarshalled value has a \<open>ComputeDefault\<close> that panics on
  every context and every options; if neither is set, the unmarshalled \<open>ComputeDefault\<close>
  is nil. In both cases \<open>AutoNamed\<close>, \<open>Value\<close> and \<open>EnvVars\<close> are preserved.
\<close>

theorem unmarshalled_default_function_panics:
  "\<exists>d'. UnmarshalDefaultInfo (MarshalDefaultInfo (Some d)) = Some d' \<and>
     (From d \<noteq> None \<or> ComputeDefault d \<noteq> None \<longrightarrow>
        (\<exists>f. ComputeDefault d' = Some f \<and>
           (\<forall>c opts. f c opts = Inl (PanicString
              ''transforms cannot be run on unmarshaled DefaultInfo values'')))) \<and>
     (From d = None \<and> ComputeDefault d = None \<longrightarrow> ComputeDefault d' = None) \<and>
     AutoNamed d' = AutoNamed d \<and> Value d' = Value d \<and> EnvVars d' = EnvVars d"
  by (auto simp: UnmarshalDefaultInfo_def MarshalDefaultInfo_def Option.is_none_def)

theorem unmarshalled_default_function_panics_witness:
  "From computed_default \<noteq> None \<and>
   (\<exists>d' f. (UnmarshalDefaultInfo (MarshalDefaultInfo (Some computed_default))
              :: (unit, unit, string, string) DefaultInfo option) = Some d' \<and>
      ComputeDefault d' = Some f \<and>
      f () () = Inl (PanicString ''transforms cannot be run on unmarshaled DefaultInfo values'') \<and>
      AutoNamed d' = True \<and> Value d' = '''' \<and> EnvVars d' = [''RAILWAY_NAME'']) \<and>
   From literal_default = None \<and> ComputeDefault literal_default = None \<and>
   (\<exists>d'. (UnmarshalDefaultInfo (MarshalDefaultInfo (Some literal_default))
              :: (unit, unit, string, string) DefaultInfo option) = Some d' \<and>
      ComputeDefault d' = None \<and>
      AutoNamed d' = False \<and> Value d' = ''Managed by Pulumi'' \<and> EnvVars d' = [])"
proof -
  have set: "From computed_default \<noteq> None"
    by (simp add: computed_default_def)
  have unset: "From literal_default = None" "ComputeDefault literal_default = None"
    by (simp_all add: literal_default_def)
  have fields:
    "AutoNamed computed_default = True" "Value computed_default = ''''"
    "EnvVars computed_default = [''RAILWAY_NAME'']"
    "AutoNamed literal_default = False" "Value literal_default = ''Managed by Pulumi''"
    "EnvVars literal_default = []"
    by (simp_all add: computed_default_def literal_default_def)
  from unmarshalled_default_function_panics [of computed_default] set fields
  have 1: "\<exists>d' f. (UnmarshalDefaultInfo (MarshalDefaultInfo (Some computed_default))
              :: (unit, unit, string, string) DefaultInfo option) = Some d' \<and>
      ComputeDefault d' = Some f \<and>
      f () () = Inl (PanicString ''transforms cannot be run on unmarshaled DefaultInfo values'') \<and>
      AutoNamed d' = True \<and> Value d' = '''' \<and> EnvVars d' = [''RAILWAY_NAME'']"
    by fastforce
  from unmarshalled_default_function_panics [of literal_default] unset fields
  have 2: "\<exists>d'. (UnmarshalDefaultInfo (MarshalDefaultInfo (Some literal_default))
              :: (unit, unit, string, string) DefaultInfo option) = Some d' \<and>
      ComputeDefault d' = None \<and>
      AutoNamed d' = False \<and> Value d' = ''Managed by Pulumi'' \<and> EnvVars d' = []"
    by fastforce
  from set unset 1 2 show ?thesis by blast
qed

text \<open>
  A nil \<open>DefaultInfo\<close> marshals to nil and nil unmarshals to nil; unmarshalling also leaves
  \<open>Config\<close> empty and \<open>From\<close> nil.
\<close>

theorem DefaultInfo_nil_and_erased_fields:
  "MarshalDefaultInfo None = None \<and>
   UnmarshalDefaultInfo None = None \<and>
   (\<exists>d'. UnmarshalDefaultInfo (MarshalDefaultInfo (Some d)) = Some d' \<and>
      Config d' = '''' \<and> From d' = None)"
  by (simp add: MarshalDefaultInfo_def UnmarshalDefaultInfo_def)

section \<open>Value conversion engine: theorems\<close>

lemma convertTyped_Null: "convertTyped N D (Typed D Null) = Inr NullProperty"
  by (subst convertTyped.simps) simp

lemma convertTyped_Unknown:
  "convertTyped N D (Typed D Unknown) = Inr (ComputedProperty (zeroValue D))"
  by (subst convertTyped.simps) simp

lemma convertTyped_Bool: "convertTyped N Bool (Typed Bool (KnownBool b)) = Inr (BoolProperty b)"
  by (subst convertTyped.simps) simp

lemma convertTyped_String:
  "convertTyped N String (Typed String (KnownString s)) = Inr (StringProperty s)"
  by (subst convertTyped.simps) simp

lemma convertTyped_Number:
  "convertTyped N Number (Typed Number (KnownNumber n)) = Inr (NumberProperty (toFloat64 N n))"
  by (subst convertTyped.simps) simp

lemma convertTyped_wrong_type: "T \<noteq> D \<Longrightarrow> convertTyped N D (Typed T st) = Inl (TypedMismatch D (Typed T st))"
  by (subst convertTyped.simps) simp

text \<open>
  C1. For every type descriptor \<open>D\<close>, the typed unknown value of \<open>D\<close> converts to the
  computed property that wraps the zero value of \<open>D\<close> (inside a secret when the secret
  flag is set), and every computed property, whatever it wraps, converts back to the
  typed unknown value of \<open>D\<close>, which is not a known value.
\<close>

theorem unknown_law:
  "ConvertTFValueToProperty N False D (Typed D Unknown) = Inr (ComputedProperty (zeroValue D)) \<and>
   ConvertTFValueToProperty N True D (Typed D Unknown)
     = Inr (SecretProperty (ComputedProperty (zeroValue D))) \<and>
   ConvertPropertyToTFValue N D (ComputedProperty placeholder) = Inr (Typed D Unknown) \<and>
   ConvertPropertyToTFValue N D (SecretProperty (ComputedProperty placeholder))
     = Inr (Typed D Unknown) \<and>
   \<not> knownOfShape D (Typed D Unknown :: 'n TypedValue)"
  by (simp add: ConvertTFValueToProperty_def convertTyped_Unknown)

text \<open>
  The unknown list of strings becomes the computed empty array and comes back unknown;
  the empty array itself comes back as the known empty list.
\<close>

lemma unknown_list_example:
  "ConvertTFValueToProperty integers False (List String) (Typed (List String) Unknown)
     = Inr (ComputedProperty (ArrayProperty []))"
  "ConvertPropertyToTFValue integers (List String) (ComputedProperty (ArrayProperty []))
     = Inr (Typed (List String) Unknown)"
  "ConvertPropertyToTFValue integers (List String) (ArrayProperty [])
     = Inr (Typed (List String) (KnownList []))"
  by (simp_all add: ConvertTFValueToProperty_def convertTyped_Unknown)

text \<open>
  C3. For \<open>D\<close> one of Bool and String and every known typed value \<open>v\<close> of shape \<open>D\<close>,
  converting \<open>v\<close> to a property and back returns \<open>v\<close>, and converting the result to a
  property once more returns the property of the first conversion; with the secret
  flag set or not.
\<close>

theorem primitive_round_trip:
  assumes "D = Bool \<or> D = String"
    and "knownOfShape D v"
  shows "\<exists>p. ConvertTFValueToProperty N secret D v = Inr p \<and>
             ConvertPropertyToTFValue N D p = Inr v \<and>
             (\<exists>v'. ConvertPropertyToTFValue N D p = Inr v' \<and>
                   ConvertTFValueToProperty N secret D v' = Inr p)"
proof -
  from assms(1) show ?thesis
  proof
    assume D: "D = Bool"
    with assms(2) obtain b where v: "v = Typed Bool (KnownBool b)"
      by (cases "(D, v)" rule: knownOfShape.cases) auto
    have "ConvertTFValueToProperty N secret Bool v
            = Inr (if secret then SecretProperty (BoolProperty b) else BoolProperty b)"
      by (simp add: v ConvertTFValueToProperty_def convertTyped_Bool)
    moreover have "ConvertPropertyToTFValue N Bool
            (if secret then SecretProperty (BoolProperty b) else BoolProperty b) = Inr v"
      by (simp add: v)
    ultimately show ?thesis unfolding D by blast
  next
    assume D: "D = String"
    with assms(2) obtain s where v: "v = Typed String (KnownString s)"
      by (cases "(D, v)" rule: knownOfShape.cases) auto
    have "ConvertTFValueToProperty N secret String v
            = Inr (if secret then SecretProperty (StringProperty s) else StringProperty s)"
      by (simp add: v ConvertTFValueToProperty_def convertTyped_String)
    moreover have "ConvertPropertyToTFValue N String
            (if secret then SecretProperty (StringProperty s) else StringProperty s) = Inr v"
      by (simp add: v)
    ultimately show ?thesis unfolding D by blast
  qed
qed

theorem primitive_round_trip_witness:
  "knownOfShape Bool (Typed Bool (KnownBool True) :: int TypedValue) \<and>
   knownOfShape String (Typed String (KnownString ''test-string'') :: int TypedValue) \<and>
   (\<exists>p. ConvertTFValueToProperty integers False Bool (Typed Bool (KnownBool True)) = Inr p \<and>
        ConvertPropertyToTFValue integers Bool p = Inr (Typed Bool (KnownBool True))) \<and>
   (\<exists>p. ConvertTFValueToProperty integers False String
          (Typed String (KnownString ''test-string'')) = Inr p \<and>
        ConvertPropertyToTFValue integers String p
          = Inr (Typed String (KnownString ''test-string'')))"
proof -
  have b: "knownOfShape Bool (Typed Bool (KnownBool True) :: int TypedValue)" by simp
  have s: "knownOfShape String (Typed String (KnownString ''test-string'') :: int TypedValue)"
    by simp
  from primitive_round_trip [OF disjI1 [OF refl] b, of integers False]
  have 1: "\<exists>p. ConvertTFValueToProperty integers False Bool (Typed Bool (KnownBool True)) = Inr p \<and>
        ConvertPropertyToTFValue integers Bool p = Inr (Typed Bool (KnownBool True))"
    by blast
  from primitive_round_trip [OF disjI2 [OF refl] s, of integers False]
  have 2: "\<exists>p. ConvertTFValueToProperty integers False String
          (Typed String (KnownString ''test-string'')) = Inr p \<and>
        ConvertPropertyToTFValue integers String p
          = Inr (Typed String (KnownString ''test-string''))"
    by blast
  from b s 1 2 show ?thesis by blast
qed

section \<open>Numbers: theorems\<close>

lemma round_half_even_of_int: "round_half_even (of_int k) = k"
  by (simp add: round_half_even_def)

lemma round_half_even_ge: "of_int a \<le> y \<Longrightarrow> a \<le> round_half_even y"
proof -
  assume "of_int a \<le> y"
  then have "a \<le> \<lfloor>y\<rfloor>" by (simp add: le_floor_iff)
  then show ?thesis by (simp add: round_half_even_def Let_def)
qed

lemma round_half_even_le: "y \<le> of_int b \<Longrightarrow> round_half_even y \<le> b"
proof (cases "y = of_int b")
  case True
  then show ?thesis by (simp add: round_half_even_of_int)
next
  case False
  assume "y \<le> of_int b"
  with False have "y < of_int b" by simp
  then have "\<lfloor>y\<rfloor> < b" by (simp add: floor_less_iff)
  then show ?thesis by (simp add: round_half_even_def Let_def)
qed

lemma binary_exponent_bounds:
  assumes "x \<noteq> 0"
  shows "2 powr of_int (binary_exponent x) \<le> \<bar>x\<bar>"
    and "\<bar>x\<bar> < 2 powr (of_int (binary_exponent x) + 1)"
proof -
  from assms have pos: "0 < \<bar>x\<bar>" by simp
  have "of_int (binary_exponent x) \<le> log 2 \<bar>x\<bar>"
    by (simp add: binary_exponent_def)
  then show "2 powr of_int (binary_exponent x) \<le> \<bar>x\<bar>"
    using pos by (simp add: le_log_iff)
  have "log 2 \<bar>x\<bar> < of_int (binary_exponent x) + 1"
    by (simp add: binary_exponent_def)
  then show "\<bar>x\<bar> < 2 powr (of_int (binary_exponent x) + 1)"
    using pos by (simp add: log_less_iff)
qed

lemma binary_exponent_ge:
  assumes "x \<noteq> 0" and "2 powr of_int k \<le> \<bar>x\<bar>"
  shows "k \<le> binary_exponent x"
proof -
  from assms have "of_int k \<le> log 2 \<bar>x\<bar>" by (simp add: le_log_iff)
  then show ?thesis by (simp add: binary_exponent_def le_floor_iff)
qed

lemma binary_exponent_less:
  assumes "x \<noteq> 0" and "\<bar>x\<bar> < 2 powr of_int k"
  shows "binary_exponent x < k"
proof -
  from assms have "log 2 \<bar>x\<bar> < of_int k" by (simp add: log_less_iff)
  then show ?thesis by (simp add: binary_exponent_def floor_less_iff)
qed

lemma two_powr_int_diff:
  assumes "s \<le> e"
  shows "(2::real) powr of_int e / 2 powr of_int s = 2 ^ nat (e - s)"
proof -
  have "(2::real) powr of_int e / 2 powr of_int s = 2 powr (of_int e - of_int s)"
    by (simp add: powr_diff)
  also have "(of_int e - of_int s :: real) = real (nat (e - s))"
    using assms by simp
  also have "(2::real) powr real (nat (e - s)) = 2 ^ nat (e - s)"
    by (simp add: powr_realpow)
  finally show ?thesis .
qed

text \<open>Rounding at a unit keeps the multiples of a unit that is at least as large.\<close>

lemma round_at_exact:
  assumes "s \<le> e"
  shows "round_at s (of_int m * 2 powr of_int e) = of_int m * 2 powr of_int e"
proof -
  let ?x = "of_int m * 2 powr of_int e :: real"
  have "\<bar>?x\<bar> / 2 powr of_int s = \<bar>of_int m\<bar> * (2 powr of_int e / 2 powr of_int s)"
    by (simp add: abs_mult)
  also have "\<dots> = of_int (\<bar>m\<bar> * 2 ^ nat (e - s))"
    by (simp add: two_powr_int_diff [OF assms])
  finally have q: "\<bar>?x\<bar> / 2 powr of_int s = of_int (\<bar>m\<bar> * 2 ^ nat (e - s))" .
  have "round_at s ?x = sgn ?x * of_int (\<bar>m\<bar> * 2 ^ nat (e - s)) * 2 powr of_int s"
    unfolding round_at_def q round_half_even_of_int ..
  also have "\<dots> = sgn ?x * (\<bar>?x\<bar> / 2 powr of_int s) * 2 powr of_int s"
    unfolding q ..
  also have "\<dots> = sgn ?x * \<bar>?x\<bar>" by simp
  also have "\<dots> = ?x" by (simp add: sgn_mult_abs del: abs_mult)
  finally show ?thesis .
qed

lemma two_powr_53: "(2::real) powr 53 = 2 ^ 53"
  using powr_realpow [of "2::real" 53] by simp

lemma two_powr_52: "(2::real) powr 52 = 2 ^ 52"
  using powr_realpow [of "2::real" 52] by simp

lemma two_powr_shift: "(2::real) ^ n * 2 powr of_int s = 2 powr of_int (s + int n)"
proof -
  have "(2::real) powr of_int (s + int n) = 2 powr (of_int s + real n)" by simp
  also have "\<dots> = 2 powr of_int s * 2 powr real n" by (rule powr_add)
  also have "\<dots> = 2 powr of_int s * 2 ^ n" by (simp only: powr_realpow zero_less_numeral)
  finally show ?thesis by (simp only: mult.commute)
qed

text \<open>Rounding to 53 bits keeps a value whose significand is below \<open>2 ^ 53\<close>.\<close>

lemma round_to_53_bits_exact:
  assumes "\<bar>m\<bar> < 2 ^ 53"
  shows "round_to_53_bits (of_int m * 2 powr of_int e) = of_int m * 2 powr of_int e"
proof (cases "m = 0")
  case True
  then show ?thesis by (simp add: round_to_53_bits_def)
next
  case False
  let ?x = "of_int m * 2 powr of_int e :: real"
  from False have nz: "?x \<noteq> 0" by simp
  have "\<bar>?x\<bar> = of_int \<bar>m\<bar> * 2 powr of_int e" by (simp add: abs_mult)
  also have "\<dots> < 2 ^ 53 * 2 powr of_int e"
  proof -
    from assms have "(of_int \<bar>m\<bar> :: real) < of_int (2 ^ 53)" by (simp only: of_int_less_iff)
    then have "(of_int \<bar>m\<bar> :: real) < 2 ^ 53" by simp
    then show ?thesis by (simp del: of_int_abs)
  qed
  also have "\<dots> = 2 powr of_int (e + 53)"
    by (simp add: powr_add two_powr_53)
  finally have "\<bar>?x\<bar> < 2 powr of_int (e + 53)" .
  with nz have "binary_exponent ?x < e + 53" by (rule binary_exponent_less)
  then have "binary_exponent ?x - 52 \<le> e" by simp
  then have "round_at (binary_exponent ?x - 52) ?x = ?x" by (rule round_at_exact)
  with nz show ?thesis by (simp add: round_to_53_bits_def)
qed

text \<open>The significand that rounding to 53 bits chooses lies between \<open>2 ^ 52\<close> and \<open>2 ^ 53\<close>.\<close>

lemma significand_bounds:
  assumes "x \<noteq> 0"
  shows "2 ^ 52 \<le> round_half_even (\<bar>x\<bar> / 2 powr of_int (binary_exponent x - 52))"
    and "round_half_even (\<bar>x\<bar> / 2 powr of_int (binary_exponent x - 52)) \<le> 2 ^ 53"
proof -
  let ?e = "binary_exponent x"
  let ?q = "\<bar>x\<bar> / 2 powr of_int (?e - 52)"
  have q: "?q = 2 ^ 52 * (\<bar>x\<bar> / 2 powr of_int ?e)"
    by (simp add: powr_diff two_powr_52)
  have lower: "2 ^ 52 \<le> ?q"
  proof -
    from binary_exponent_bounds(1) [OF assms]
    have "1 \<le> \<bar>x\<bar> / 2 powr of_int ?e" by simp
    then have "2 ^ 52 * 1 \<le> 2 ^ 52 * (\<bar>x\<bar> / 2 powr of_int ?e)"
      by (rule mult_left_mono) simp
    then show ?thesis unfolding q by simp
  qed
  have upper: "?q \<le> 2 ^ 53"
  proof -
    from binary_exponent_bounds(2) [OF assms]
    have "\<bar>x\<bar> < 2 * 2 powr of_int ?e" by (simp add: powr_add)
    then have "\<bar>x\<bar> / 2 powr of_int ?e < 2" by (simp add: divide_less_eq)
    then have "2 ^ 52 * (\<bar>x\<bar> / 2 powr of_int ?e) \<le> 2 ^ 52 * 2"
      by (intro mult_left_mono) simp_all
    then show ?thesis unfolding q by simp
  qed
  from lower have "(of_int (2 ^ 52) :: real) \<le> ?q" by simp
  then show "2 ^ 52 \<le> round_half_even ?q" by (rule round_half_even_ge)
  from upper have "?q \<le> (of_int (2 ^ 53) :: real)" by simp
  then show "round_half_even ?q \<le> 2 ^ 53" by (rule round_half_even_le)
qed

lemma round_to_53_bits_idem: "round_to_53_bits (round_to_53_bits x) = round_to_53_bits x"
proof (cases "x = 0")
  case True
  then show ?thesis by (simp add: round_to_53_bits_def)
next
  case False
  let ?s = "binary_exponent x - 52"
  let ?m = "round_half_even (\<bar>x\<bar> / 2 powr of_int ?s)"
  have rounded: "round_to_53_bits x = sgn x * of_int ?m * 2 powr of_int ?s"
    using False by (simp add: round_to_53_bits_def round_at_def)
  obtain sg :: int where sg: "sgn x = of_int sg" "\<bar>sg\<bar> = 1"
  proof (cases "0 < x")
    case True
    then have "sgn x = of_int 1" "\<bar>1::int\<bar> = 1" by simp_all
    then show ?thesis by (rule that)
  next
    case neg: False
    with False have "x < 0" by simp
    then have "sgn x = of_int (- 1)" "\<bar>- 1::int\<bar> = 1" by simp_all
    then show ?thesis by (rule that)
  qed
  from significand_bounds [OF False] have m: "2 ^ 52 \<le> ?m" "?m \<le> 2 ^ 53" by simp_all
  show ?thesis
  proof (cases "?m = 2 ^ 53")
    case True
    have "round_to_53_bits x = of_int sg * (2 ^ 53 * 2 powr of_int ?s)"
      unfolding rounded True sg(1) by simp
    also have "\<dots> = of_int sg * 2 powr of_int (?s + 53)"
      using two_powr_shift [of 53 ?s] by simp
    finally have "round_to_53_bits x = of_int sg * 2 powr of_int (?s + 53)" .
    moreover have "\<bar>sg\<bar> < 2 ^ 53" using sg(2) by simp
    ultimately show ?thesis
      using round_to_53_bits_exact [of sg "?s + 53"] by simp
  next
    case neq: False
    with m have "?m < 2 ^ 53" by simp
    with m(1) have "\<bar>sg * ?m\<bar> < 2 ^ 53" using sg(2) by (simp add: abs_mult)
    moreover have "round_to_53_bits x = of_int (sg * ?m) * 2 powr of_int ?s"
      unfolding rounded sg(1) by simp
    ultimately show ?thesis
      using round_to_53_bits_exact [of "sg * ?m" ?s] by simp
  qed
qed

lemma two_powr_mono: "a \<le> b \<Longrightarrow> (2::real) powr a \<le> 2 powr b"
  by (rule powr_mono) simp_all

lemma two_powr_strict_mono: "a < b \<Longrightarrow> (2::real) powr a < 2 powr b"
  by (rule powr_less_mono) simp_all

lemma Float64_safe_integer:
  assumes "\<bar>n\<bar> < 2 ^ 53"
  shows "Float64 (Finite (of_int n)) = Finite (of_int n)"
proof (cases "n = 0")
  case True
  then show ?thesis by simp
next
  case False
  let ?x = "of_int n :: real"
  from False have nz: "?x \<noteq> 0" by simp
  have x: "?x = of_int n * 2 powr of_int 0" by simp
  from assms have "(of_int \<bar>n\<bar> :: real) < of_int (2 ^ 53)" by (simp only: of_int_less_iff)
  then have small: "\<bar>?x\<bar> < 2 ^ 53" by simp
  then have "\<bar>?x\<bar> < 2 powr of_int 53" using two_powr_53 by simp
  with nz have "binary_exponent ?x < 53" by (rule binary_exponent_less)
  then have "max (binary_exponent ?x - 52) (- 1074) \<le> 0" by simp
  then have "round_at (max (binary_exponent ?x - 52) (- 1074)) (of_int n * 2 powr of_int 0)
             = of_int n * 2 powr of_int 0"
    by (rule round_at_exact)
  then have kept: "round_at (max (binary_exponent ?x - 52) (- 1074)) ?x = ?x" by simp
  have "(2::real) ^ 53 = 2 powr 53" using two_powr_53 by simp
  also have "\<dots> < 2 powr 1024" by (rule two_powr_strict_mono) simp
  finally have "\<bar>?x\<bar> < 2 powr 1024" using small by simp
  with nz kept show ?thesis by (simp add: Let_def)
qed

lemma Float64_normal:
  assumes "in_normal_range x"
  shows "Float64 (Finite x) = Finite (round_to_53_bits x)"
proof -
  from assms have lo: "2 powr (- 1022) \<le> \<bar>x\<bar>" and hi: "\<bar>x\<bar> \<le> (2 ^ 53 - 1) * 2 powr 971"
    by (simp_all add: in_normal_range_def)
  have "(0::real) < 2 powr (- 1022)" by simp
  with lo have nz: "x \<noteq> 0" by auto
  let ?e = "binary_exponent x"
  let ?s = "?e - 52"
  let ?q = "\<bar>x\<bar> / 2 powr of_int ?s"
  let ?m = "round_half_even ?q"
  have "2 powr of_int (- 1022) \<le> \<bar>x\<bar>" using lo by simp
  with nz have e_lo: "- 1022 \<le> ?e" by (rule binary_exponent_ge)
  then have s: "max ?s (- 1074) = ?s" by simp
  have "(2 ^ 53 - 1) * 2 powr 971 < (2 ^ 53 :: real) * 2 powr 971" by simp
  also have "\<dots> = 2 powr of_int (971 + 53)" using two_powr_shift [of 53 971] by simp
  finally have "\<bar>x\<bar> < 2 powr of_int 1024" using hi by simp
  with nz have e_hi: "?e < 1024" by (rule binary_exponent_less)
  have y: "round_at ?s x = sgn x * of_int ?m * 2 powr of_int ?s"
    by (simp add: round_at_def)
  from nz have "\<bar>sgn x\<bar> = 1" by (simp add: abs_sgn_eq)
  then have abs_y: "\<bar>round_at ?s x\<bar> = of_int \<bar>?m\<bar> * 2 powr of_int ?s"
    unfolding y by (simp add: abs_mult del: of_int_abs)
  from significand_bounds [OF nz] have m: "2 ^ 52 \<le> ?m" "?m \<le> 2 ^ 53" by simp_all
  then have m_abs: "\<bar>?m\<bar> = ?m" by simp
  have below: "\<bar>round_at ?s x\<bar> < 2 powr 1024"
  proof (cases "?e = 1023")
    case True
    then have s971: "?s = 971" by simp
    from hi have "?q \<le> 2 ^ 53 - 1"
      unfolding s971 by (simp add: divide_le_eq)
    then have "?q \<le> of_int (2 ^ 53 - 1)" by simp
    then have "?m \<le> 2 ^ 53 - 1" by (rule round_half_even_le)
    then have "(of_int ?m :: real) \<le> of_int (2 ^ 53 - 1)" by (simp only: of_int_le_iff)
    then have "(of_int ?m :: real) < 2 ^ 53" by simp
    then have "of_int ?m * 2 powr of_int ?s < (2 ^ 53 :: real) * 2 powr of_int ?s"
      by simp
    also have "\<dots> = 2 powr of_int (?s + 53)" using two_powr_shift [of 53 ?s] by simp
    also have "\<dots> = 2 powr 1024" unfolding s971 by simp
    finally show ?thesis unfolding abs_y m_abs .
  next
    case False
    with e_hi have "?s + 53 \<le> 1023" by simp
    from m(2) have "(of_int ?m :: real) \<le> of_int (2 ^ 53)" by (simp only: of_int_le_iff)
    then have "(of_int ?m :: real) \<le> 2 ^ 53" by simp
    then have "of_int ?m * 2 powr of_int ?s \<le> (2 ^ 53 :: real) * 2 powr of_int ?s"
      by simp
    also have "\<dots> = 2 powr of_int (?s + 53)" using two_powr_shift [of 53 ?s] by simp
    also have "\<dots> \<le> 2 powr of_int 1023"
      using \<open>?s + 53 \<le> 1023\<close> by (intro two_powr_mono) (simp only: of_int_le_iff)
    also have "\<dots> < 2 powr 1024" by (intro two_powr_strict_mono) simp
    finally show ?thesis unfolding abs_y m_abs .
  qed
  have "Float64 (Finite x) = Finite (round_at ?s x)"
    using nz below by (simp add: Let_def s)
  also have "round_at ?s x = round_to_53_bits x"
    using nz by (simp add: round_to_53_bits_def)
  finally show ?thesis .
qed

lemma binary_exponent_power_of_two: "binary_exponent (2 powr of_int k) = k"
  by (simp add: binary_exponent_def)

lemma tiny: "(2::real) powr (- 26) < 1 / 2"
proof -
  have "(2::real) powr (- 26) < 2 powr (- 1)" by (rule two_powr_strict_mono) simp
  also have "(2::real) powr (- 1) = 1 / 2" by (simp add: powr_minus_divide)
  finally show ?thesis .
qed

lemma Float64_underflow: "Float64 (Finite (2 powr (- 1100))) = Finite 0"
proof -
  let ?x = "2 powr (- 1100) :: real"
  have e: "binary_exponent ?x = - 1100"
    using binary_exponent_power_of_two [of "- 1100"] by simp
  have s: "max (binary_exponent ?x - 52) (- 1074) = - 1074" unfolding e by simp
  have "(2::real) powr (- 1100) / 2 powr (- 1074) = 2 powr (- 1100 - (- 1074))"
    by (rule powr_diff [symmetric])
  then have q: "\<bar>?x\<bar> / 2 powr of_int (- 1074) = 2 powr (- 26)" by simp
  have pos: "(0::real) < 2 powr (- 26)" by simp
  have "(2::real) powr (- 26) < 1" using tiny by simp
  with pos have fl: "\<lfloor>(2::real) powr (- 26)\<rfloor> = 0" by (simp add: floor_eq_iff)
  have "round_half_even (2 powr (- 26)) = 0"
    using tiny by (simp add: round_half_even_def fl Let_def)
  then have "round_at (- 1074) ?x = 0"
    unfolding round_at_def q by simp
  then show ?thesis
    using s by (simp add: Let_def)
qed

lemma SetPrec53_power_of_two: "round_to_53_bits (2 powr (- 1100)) = 2 powr (- 1100)"
  using round_to_53_bits_exact [of 1 "- 1100"] by simp

lemma normal_3_12: "in_normal_range 3.12"
proof -
  have "(2::real) powr (- 1022) \<le> 2 powr 0" by (rule two_powr_mono) simp
  then have lo: "(2::real) powr (- 1022) \<le> \<bar>3.12\<bar>" by simp
  have "(2::real) powr 0 \<le> 2 powr 971" by (rule two_powr_mono) simp
  then have "(1::real) \<le> 2 powr 971" by simp
  then have "(2 ^ 53 - 1) * (1::real) \<le> (2 ^ 53 - 1) * 2 powr 971"
    by (rule mult_left_mono) simp
  then have "\<bar>3.12 :: real\<bar> \<le> (2 ^ 53 - 1) * 2 powr 971" by simp
  with lo show ?thesis by (simp only: in_normal_range_def simp_thms)
qed

lemma convert_number:
  "ConvertTFValueToProperty binary64 secret Number (Typed Number (KnownNumber f))
     = Inr (if secret then SecretProperty (NumberProperty (Float64 f))
            else NumberProperty (Float64 f))"
  "ConvertPropertyToTFValue binary64 Number
       (if secret then SecretProperty (NumberProperty g) else NumberProperty g)
     = Inr (Typed Number (KnownNumber g))"
  by (simp_all add: ConvertTFValueToProperty_def convertTyped_Number binary64_def NewFloat_def)

text \<open>
  C2 as stated fails for fractional numbers outside the range of the 64-bit float. The
  typed number \<open>2 ^ - 1100\<close> lies strictly between 0 and 1; it converts to the property
  number 0, which converts back to the typed number 0; compared at 53 bits of precision,
  the original is \<open>2 ^ - 1100\<close> and the result is 0.
\<close>

theorem number_round_trip_underflows:
  "(0::real) < 2 powr (- 1100) \<and> (2::real) powr (- 1100) < 1 \<and>
   ConvertTFValueToProperty binary64 False Number
       (Typed Number (KnownNumber (Finite (2 powr (- 1100)))))
     = Inr (NumberProperty (Finite 0)) \<and>
   ConvertPropertyToTFValue binary64 Number (NumberProperty (Finite 0))
     = Inr (Typed Number (KnownNumber (Finite 0))) \<and>
   normNum (Typed Number (KnownNumber (Finite 0))) = Inr (Finite 0) \<and>
   normNum (Typed Number (KnownNumber (Finite (2 powr (- 1100)))))
     = Inr (Finite (2 powr (- 1100))) \<and>
   normNum (Typed Number (KnownNumber (Finite 0)))
     \<noteq> normNum (Typed Number (KnownNumber (Finite (2 powr (- 1100)))))"
proof -
  have pos: "(0::real) < 2 powr (- 1100)" by simp
  have "(2::real) powr (- 1100) < 2 powr 0" by (rule two_powr_strict_mono) simp
  then have small: "(2::real) powr (- 1100) < 1" by simp
  have there: "ConvertTFValueToProperty binary64 False Number
       (Typed Number (KnownNumber (Finite (2 powr (- 1100)))))
     = Inr (NumberProperty (Finite 0))"
    using convert_number(1) [of False "Finite (2 powr (- 1100))"]
    by (simp only: Float64_underflow if_False)
  have back_again: "ConvertPropertyToTFValue binary64 Number (NumberProperty (Finite 0))
     = Inr (Typed Number (KnownNumber (Finite 0)))"
    using convert_number(2) [of False "Finite 0"] by (simp only: if_False)
  have zero: "normNum (Typed Number (KnownNumber (Finite 0))) = Inr (Finite 0)"
    by (simp add: normNum_def round_to_53_bits_def)
  have orig: "normNum (Typed Number (KnownNumber (Finite (2 powr (- 1100)))))
     = Inr (Finite (2 powr (- 1100)))"
    by (simp add: normNum_def SetPrec53_power_of_two)
  have differ: "normNum (Typed Number (KnownNumber (Finite 0)))
     \<noteq> normNum (Typed Number (KnownNumber (Finite (2 powr (- 1100)))))"
    unfolding zero orig by simp
  from pos small there back_again zero orig differ show ?thesis by (simp only: simp_thms)
qed

text \<open>
  C2, amended. For every integer \<open>n\<close> with \<open>\<bar>n\<bar> < 2 ^ 53\<close>, converting the typed number \<open>n\<close>
  to a property and back yields exactly \<open>n\<close>. For every typed number \<open>x\<close> in the normal
  range of the 64-bit float, fractional or not, converting \<open>x\<close> to a property and back
  yields a number that equals \<open>x\<close> when both are compared at 53 bits of significand
  precision. Both hold with the secret flag set or not.
\<close>

theorem number_round_trip:
  "(\<bar>n\<bar> < 2 ^ 53 \<longrightarrow>
      (\<exists>p. ConvertTFValueToProperty binary64 secret Number
             (Typed Number (KnownNumber (Finite (of_int n)))) = Inr p \<and>
           ConvertPropertyToTFValue binary64 Number p
             = Inr (Typed Number (KnownNumber (Finite (of_int n)))))) \<and>
   (in_normal_range x \<longrightarrow>
      (\<exists>p v f. ConvertTFValueToProperty binary64 secret Number
                 (Typed Number (KnownNumber (Finite x))) = Inr p \<and>
               ConvertPropertyToTFValue binary64 Number p = Inr v \<and>
               normNum v = Inr f \<and>
               normNum (Typed Number (KnownNumber (Finite x))) = Inr f))"
proof (intro conjI impI)
  assume "\<bar>n\<bar> < 2 ^ 53"
  then have kept: "Float64 (Finite (of_int n)) = Finite (of_int n)"
    by (rule Float64_safe_integer)
  have there: "ConvertTFValueToProperty binary64 secret Number
      (Typed Number (KnownNumber (Finite (of_int n))))
    = Inr (if secret then SecretProperty (NumberProperty (Finite (of_int n)))
           else NumberProperty (Finite (of_int n)))"
    using convert_number(1) [of secret "Finite (of_int n)"] unfolding kept .
  note back_again = convert_number(2) [of secret "Finite (of_int n)"]
  from there back_again
  show "\<exists>p. ConvertTFValueToProperty binary64 secret Number
             (Typed Number (KnownNumber (Finite (of_int n)))) = Inr p \<and>
           ConvertPropertyToTFValue binary64 Number p
             = Inr (Typed Number (KnownNumber (Finite (of_int n))))"
    by blast
next
  assume "in_normal_range x"
  then have rounded: "Float64 (Finite x) = Finite (round_to_53_bits x)" by (rule Float64_normal)
  let ?v = "Typed Number (KnownNumber (Finite (round_to_53_bits x))) :: bigfloat TypedValue"
  have "normNum ?v = Inr (Finite (round_to_53_bits x))"
    by (simp add: normNum_def round_to_53_bits_idem)
  moreover have "normNum (Typed Number (KnownNumber (Finite x))) = Inr (Finite (round_to_53_bits x))"
    by (simp add: normNum_def)
  moreover have "ConvertTFValueToProperty binary64 secret Number
      (Typed Number (KnownNumber (Finite x)))
    = Inr (if secret then SecretProperty (NumberProperty (Finite (round_to_53_bits x)))
           else NumberProperty (Finite (round_to_53_bits x)))"
    using convert_number(1) [of secret "Finite x"] unfolding rounded .
  moreover note convert_number(2) [of secret "Finite (round_to_53_bits x)"]
  ultimately show "\<exists>p v f. ConvertTFValueToProperty binary64 secret Number
                 (Typed Number (KnownNumber (Finite x))) = Inr p \<and>
               ConvertPropertyToTFValue binary64 Number p = Inr v \<and>
               normNum v = Inr f \<and>
               normNum (Typed Number (KnownNumber (Finite x))) = Inr f"
    by blast
qed

theorem number_round_trip_witness:
  "\<bar>42 :: int\<bar> < 2 ^ 53 \<and>
   in_normal_range 3.12 \<and>
   (\<exists>p. ConvertTFValueToProperty binary64 False Number
          (Typed Number (KnownNumber (Finite 42))) = Inr p \<and>
        ConvertPropertyToTFValue binary64 Number p
          = Inr (Typed Number (KnownNumber (Finite 42)))) \<and>
   (\<exists>p v f. ConvertTFValueToProperty binary64 False Number
              (Typed Number (KnownNumber (Finite 3.12))) = Inr p \<and>
            ConvertPropertyToTFValue binary64 Number p = Inr v \<and>
            normNum v = Inr f \<and>
            normNum (Typed Number (KnownNumber (Finite 3.12))) = Inr f)"
proof -
  have safe: "\<bar>42 :: int\<bar> < 2 ^ 53" by simp
  note at = number_round_trip [of 42 False "3.12"]
  from at safe
  have 1: "\<exists>p. ConvertTFValueToProperty binary64 False Number
          (Typed Number (KnownNumber (Finite (of_int 42)))) = Inr p \<and>
        ConvertPropertyToTFValue binary64 Number p
          = Inr (Typed Number (KnownNumber (Finite (of_int 42))))"
    by blast
  then have 1: "\<exists>p. ConvertTFValueToProperty binary64 False Number
          (Typed Number (KnownNumber (Finite 42))) = Inr p \<and>
        ConvertPropertyToTFValue binary64 Number p
          = Inr (Typed Number (KnownNumber (Finite 42)))"
    by simp
  from at normal_3_12
  have 2: "\<exists>p v f. ConvertTFValueToProperty binary64 False Number
              (Typed Number (KnownNumber (Finite 3.12))) = Inr p \<and>
            ConvertPropertyToTFValue binary64 Number p = Inr v \<and>
            normNum v = Inr f \<and>
            normNum (Typed Number (KnownNumber (Finite 3.12))) = Inr f"
    by blast
  from safe normal_3_12 1 2 show ?thesis by (simp only: simp_thms)
qed

text \<open>
  The number 42 becomes the property number 42 and comes back as 42.
\<close>

lemma forty_two:
  "ConvertTFValueToProperty binary64 False Number (Typed Number (KnownNumber (Finite 42)))
     = Inr (NumberProperty (Finite 42))"
  "ConvertPropertyToTFValue binary64 Number (NumberProperty (Finite 42))
     = Inr (Typed Number (KnownNumber (Finite 42)))"
proof -
  have "Float64 (Finite (of_int 42)) = Finite (of_int 42)"
    by (rule Float64_safe_integer) simp
  then have "Float64 (Finite 42) = Finite 42" by simp
  then show "ConvertTFValueToProperty binary64 False Number (Typed Number (KnownNumber (Finite 42)))
     = Inr (NumberProperty (Finite 42))"
    using convert_number(1) [of False "Finite 42"] by (simp only: if_False)
  from convert_number(2) [of False "Finite 42"]
  show "ConvertPropertyToTFValue binary64 Number (NumberProperty (Finite 42))
     = Inr (Typed Number (KnownNumber (Finite 42)))"
    by simp
qed


end
